theory Spec2Isabelle
  imports Complex_Main
begin

section \<open>Python values handled by the script\<close>

text \<open>
  The values \<open>json.loads\<close> produces. Integers and floats are kept apart, as Python
  keeps them; a finite float is the rational it denotes (the non-finite literals
  \<open>NaN\<close> and \<open>Infinity\<close> that \<open>json.loads\<close> also accepts are outside the model).
  A dict is the list of its items in insertion order; its keys are distinct.
\<close>

datatype json =
    JNull
  | JBool bool
  | JInt int
  | JFloat rat
  | JStr string
  | JArr "json list"
  | JObj "(string \<times> json) list"

text \<open>The exceptions that can reach the \<open>except Exception\<close> of the import.\<close>

datatype exn = AttributeError | KeyError | TypeError | ValueError | ShapelyError

text \<open>\<open>d.get(key, default)\<close> on a dict.\<close>

definition dict_get :: "(string \<times> json) list \<Rightarrow> string \<Rightarrow> json \<Rightarrow> json" where
  "dict_get kv k dflt = (case map_of kv k of None \<Rightarrow> dflt | Some v \<Rightarrow> v)"

text \<open>\<open>x.get(key, default)\<close> on any value: only a dict has the method.\<close>

fun py_get :: "json \<Rightarrow> string \<Rightarrow> json \<Rightarrow> exn + json" where
  "py_get (JObj kv) k dflt = Inr (dict_get kv k dflt)"
| "py_get _ k dflt = Inl AttributeError"

text \<open>\<open>x[key]\<close> with a string key: a missing key raises \<open>KeyError\<close>, a value that
  is not a dict raises \<open>TypeError\<close>.\<close>

fun py_subscript :: "json \<Rightarrow> string \<Rightarrow> exn + json" where
  "py_subscript (JObj kv) k = (case map_of kv k of None \<Rightarrow> Inl KeyError | Some v \<Rightarrow> Inr v)"
| "py_subscript _ k = Inl TypeError"

text \<open>\<open>for x in v\<close>: a list gives its elements, a string its characters, a dict
  its keys; nothing else is iterable.\<close>

fun py_iter :: "json \<Rightarrow> exn + json list" where
  "py_iter (JArr xs) = Inr xs"
| "py_iter (JStr s) = Inr (map (\<lambda>c. JStr [c]) s)"
| "py_iter (JObj kv) = Inr (map (\<lambda>(k, v). JStr k) kv)"
| "py_iter _ = Inl TypeError"

text \<open>Truth value of a value in a condition.\<close>

fun truthy :: "json \<Rightarrow> bool" where
  "truthy JNull = False"
| "truthy (JBool b) = b"
| "truthy (JInt i) = (i \<noteq> 0)"
| "truthy (JFloat r) = (r \<noteq> 0)"
| "truthy (JStr s) = (s \<noteq> [])"
| "truthy (JArr xs) = (xs \<noteq> [])"
| "truthy (JObj kv) = (kv \<noteq> [])"

text \<open>Dict keys: lists and dicts are unhashable; \<open>True == 1 == 1.0\<close>.\<close>

fun hashable :: "json \<Rightarrow> bool" where
  "hashable (JArr xs) = False"
| "hashable (JObj kv) = False"
| "hashable _ = True"

fun num_val :: "json \<Rightarrow> rat option" where
  "num_val (JBool b) = Some (if b then 1 else 0)"
| "num_val (JInt i) = Some (of_int i)"
| "num_val (JFloat r) = Some r"
| "num_val _ = None"

definition key_eq :: "json \<Rightarrow> json \<Rightarrow> bool" where
  "key_eq a b =
     (case num_val a of
        Some x \<Rightarrow> (case num_val b of Some y \<Rightarrow> x = y | None \<Rightarrow> False)
      | None \<Rightarrow> (case num_val b of Some y \<Rightarrow> False | None \<Rightarrow> a = b))"

text \<open>Decimal text of an integer, as an f-string prints it.\<close>

definition digit_char :: "nat \<Rightarrow> char" where
  "digit_char d = ''0123456789'' ! d"

function str_nat :: "nat \<Rightarrow> string" where
  "str_nat n = (if n < 10 then [digit_char n] else str_nat (n div 10) @ [digit_char (n mod 10)])"
  by pat_completeness auto
termination
  by (relation "measure id") auto

declare str_nat.simps [simp del]

definition str_int :: "int \<Rightarrow> string" where
  "str_int i = (if i < 0 then CHR ''-'' # str_nat (nat (- i)) else str_nat (nat i))"

section \<open>The customer roster\<close>

text \<open>
  The GeoDataFrame \<open>gdf\<close>: the columns of the CSV file, and per customer the cells
  of its row and the point built from Longitude and Latitude (the geometry column).
\<close>

type_synonym point = "rat \<times> rat"

record customer =
  cells :: "json list"
  point :: point

record frame =
  columns :: "string list"
  rows :: "customer list"

text \<open>\<open>frame[[c1, ..., cn]]\<close>: the listed columns, \<open>KeyError\<close> if one is missing.\<close>

definition cell_at :: "string list \<Rightarrow> customer \<Rightarrow> string \<Rightarrow> json" where
  "cell_at cols r c = (case map_of (zip cols (cells r)) c of None \<Rightarrow> JNull | Some v \<Rightarrow> v)"

definition select_columns :: "string list \<Rightarrow> frame \<Rightarrow> exn + (string list \<times> json list list)" where
  "select_columns cs f =
     (if \<forall>c \<in> set cs. c \<in> set (columns f)
      then Inr (cs, map (\<lambda>r. map (cell_at (columns f) r) cs) (rows f))
      else Inl KeyError)"

section \<open>The libraries the script calls\<close>

text \<open>
  shapely (\<open>shape\<close>, \<open>mapping\<close>, \<open>within\<close>, \<open>equals\<close>), json (\<open>loads\<close> of the decoded
  bytes, \<open>dumps\<close> of a dict keyed by labels), the builtin \<open>hash\<close>, pandas' \<open>to_csv\<close>
  and the text of a float are parameters of the model.
\<close>

record 'g lib =
  shape :: "json \<Rightarrow> exn + 'g"
  mapping :: "'g \<Rightarrow> json"
  within_geom :: "point \<Rightarrow> 'g \<Rightarrow> bool"
  equals :: "'g \<Rightarrow> 'g \<Rightarrow> bool"
  loads :: "string \<Rightarrow> exn + json"
  dumps :: "(json \<times> json) list \<Rightarrow> string"
  hash :: "string \<Rightarrow> int"
  to_csv :: "frame \<Rightarrow> string"
  float_repr :: "rat \<Rightarrow> string"

text \<open>\<open>f"{label}"\<close> for a label (a hashable value).\<close>

fun label_str :: "'g lib \<Rightarrow> json \<Rightarrow> string" where
  "label_str L JNull = ''None''"
| "label_str L (JBool b) = (if b then ''True'' else ''False'')"
| "label_str L (JInt i) = str_int i"
| "label_str L (JFloat r) = float_repr L r"
| "label_str L (JStr s) = s"
| "label_str L _ = []"

section \<open>Session state\<close>

definition VERSION :: string where
  "VERSION = ''v1.4''"

definition palette :: "string list" where
  "palette = [''red'', ''blue'', ''green'', ''purple'', ''orange'']"

record 'g zone =
  geometry :: 'g
  data :: frame
  count :: nat
  color :: json

record 'g session_state =
  zones :: "(json \<times> 'g zone) list"
  last_upload_hash :: "int option"

definition initial_state :: "'g session_state" where
  "initial_state = \<lparr>zones = [], last_upload_hash = None\<rparr>"

text \<open>\<open>zones[label] = zone\<close>: an existing key keeps its place (and its key
  object), a new key is appended, an unhashable key raises.\<close>

fun upsert :: "(json \<times> 'g zone) list \<Rightarrow> json \<Rightarrow> 'g zone \<Rightarrow> (json \<times> 'g zone) list" where
  "upsert [] k v = [(k, v)]"
| "upsert ((k', v') # zs) k v =
     (if key_eq k' k then (k', v) # zs else (k', v') # upsert zs k v)"

definition setitem :: "(json \<times> 'g zone) list \<Rightarrow> json \<Rightarrow> 'g zone \<Rightarrow> exn + (json \<times> 'g zone) list" where
  "setitem zs k v = (if hashable k then Inr (upsert zs k v) else Inl TypeError)"

text \<open>\<open>gdf[gdf.geometry.within(geom)].copy()\<close> and the zone record built from it.\<close>

definition inside_of :: "'g lib \<Rightarrow> frame \<Rightarrow> 'g \<Rightarrow> frame" where
  "inside_of L gdf geom = gdf\<lparr>rows := filter (\<lambda>c. within_geom L (point c) geom) (rows gdf)\<rparr>"

definition zone_record :: "'g \<Rightarrow> frame \<Rightarrow> json \<Rightarrow> 'g zone" where
  "zone_record geom inside col =
     \<lparr>geometry = geom, data = inside, count = length (rows inside), color = col\<rparr>"

section \<open>Import\<close>

datatype import_feedback =
    NoUpload
  | ImportedGeoJSON nat
  | ImportedJSON nat
  | ImportFailed exn
  | AlreadyImported

text \<open>The body of the loop over the features of a FeatureCollection.\<close>

definition import_feature ::
  "'g lib \<Rightarrow> frame \<Rightarrow> (json \<times> 'g zone) list \<Rightarrow> json \<Rightarrow> exn + (json \<times> 'g zone) list" where
  "import_feature L gdf zs feat =
     (case py_get feat ''geometry'' (JObj []) of Inl e \<Rightarrow> Inl e | Inr gj \<Rightarrow>
     (case shape L gj of Inl e \<Rightarrow> Inl e | Inr geom \<Rightarrow>
     (case py_get feat ''properties'' (JObj []) of Inl e \<Rightarrow> Inl e | Inr props \<Rightarrow>
     (case py_get props ''name'' (JStr (''Zone '' @ str_nat (length zs + 1))) of
        Inl e \<Rightarrow> Inl e | Inr label \<Rightarrow>
     (case py_get props ''color'' (JStr ''red'') of Inl e \<Rightarrow> Inl e | Inr col \<Rightarrow>
        setitem zs label (zone_record geom (inside_of L gdf geom) col))))))"

fun import_features ::
  "'g lib \<Rightarrow> frame \<Rightarrow> (json \<times> 'g zone) list \<Rightarrow> nat \<Rightarrow> json list
     \<Rightarrow> (json \<times> 'g zone) list \<times> (exn + nat)" where
  "import_features L gdf zs imported [] = (zs, Inr imported)"
| "import_features L gdf zs imported (feat # feats) =
     (case import_feature L gdf zs feat of
        Inl e \<Rightarrow> (zs, Inl e)
      | Inr zs' \<Rightarrow> import_features L gdf zs' (imported + 1) feats)"

text \<open>The body of the loop over the items of a legacy export.\<close>

definition import_item ::
  "'g lib \<Rightarrow> frame \<Rightarrow> (json \<times> 'g zone) list \<Rightarrow> string \<times> json \<Rightarrow> exn + (json \<times> 'g zone) list" where
  "import_item L gdf zs item =
     (case py_get (snd item) ''geometry'' (JObj []) of Inl e \<Rightarrow> Inl e | Inr gj \<Rightarrow>
     (case shape L gj of Inl e \<Rightarrow> Inl e | Inr geom \<Rightarrow>
     (case py_get (snd item) ''color'' (JStr ''red'') of Inl e \<Rightarrow> Inl e | Inr col \<Rightarrow>
        setitem zs (JStr (fst item)) (zone_record geom (inside_of L gdf geom) col))))"

fun import_items ::
  "'g lib \<Rightarrow> frame \<Rightarrow> (json \<times> 'g zone) list \<Rightarrow> (string \<times> json) list
     \<Rightarrow> (json \<times> 'g zone) list \<times> exn option" where
  "import_items L gdf zs [] = (zs, None)"
| "import_items L gdf zs (item # items) =
     (case import_item L gdf zs item of
        Inl e \<Rightarrow> (zs, Some e)
      | Inr zs' \<Rightarrow> import_items L gdf zs' items)"

text \<open>What runs inside the \<open>try\<close>: the store afterwards and the message shown.\<close>

definition is_feature_collection :: "json \<Rightarrow> bool" where
  "is_feature_collection d =
     (case d of JObj kv \<Rightarrow> dict_get kv ''type'' JNull = JStr ''FeatureCollection'' | _ \<Rightarrow> False)"

definition import_data ::
  "'g lib \<Rightarrow> frame \<Rightarrow> (json \<times> 'g zone) list \<Rightarrow> string
     \<Rightarrow> (json \<times> 'g zone) list \<times> import_feedback" where
  "import_data L gdf zs file_bytes =
     (case loads L file_bytes of
        Inl e \<Rightarrow> (zs, ImportFailed e)
      | Inr d \<Rightarrow>
          if is_feature_collection d then
            (case py_subscript d ''features'' of
               Inl e \<Rightarrow> (zs, ImportFailed e)
             | Inr fs \<Rightarrow>
                 (case py_iter fs of
                    Inl e \<Rightarrow> (zs, ImportFailed e)
                  | Inr feats \<Rightarrow>
                      (case import_features L gdf zs 0 feats of
                         (zs', Inl e) \<Rightarrow> (zs', ImportFailed e)
                       | (zs', Inr imported) \<Rightarrow> (zs', ImportedGeoJSON imported))))
          else
            (case d of
               JObj kv \<Rightarrow>
                 (case import_items L gdf zs kv of
                    (zs', Some e) \<Rightarrow> (zs', ImportFailed e)
                  | (zs', None) \<Rightarrow> (zs', ImportedJSON (length kv)))
             | _ \<Rightarrow> (zs, ImportFailed AttributeError)))"

definition import_section ::
  "'g lib \<Rightarrow> frame \<Rightarrow> 'g session_state \<Rightarrow> string option \<Rightarrow> 'g session_state \<times> import_feedback" where
  "import_section L gdf st uploaded =
     (case uploaded of
        None \<Rightarrow> (st, NoUpload)
      | Some file_bytes \<Rightarrow>
          let file_hash = hash L file_bytes in
          if Some file_hash \<noteq> last_upload_hash st then
            (case import_data L gdf (zones st) file_bytes of
               (zs', fb) \<Rightarrow> (\<lparr>zones = zs', last_upload_hash = Some file_hash\<rparr>, fb))
          else (st, AlreadyImported))"

section \<open>Export\<close>

definition export_data :: "'g lib \<Rightarrow> (json \<times> 'g zone) list \<Rightarrow> (json \<times> json) list" where
  "export_data L zs =
     map (\<lambda>(label, z). (label, JObj [(''geometry'', mapping L (geometry z)), (''color'', color z)])) zs"

text \<open>The download button exists only when the store is not empty: the file's
  content and its name.\<close>

definition export_section :: "'g lib \<Rightarrow> (json \<times> 'g zone) list \<Rightarrow> (string \<times> string) option" where
  "export_section L zs =
     (if zs \<noteq> [] then Some (dumps L (export_data L zs), ''zones_export_'' @ VERSION @ ''.json'')
      else None)"

section \<open>Saving a drawn polygon\<close>

datatype save_feedback =
    NoDrawing
  | Crashed exn
  | AlreadySaved
  | Offered
  | Saved string nat

definition save_section ::
  "'g lib \<Rightarrow> frame \<Rightarrow> 'g session_state \<Rightarrow> json \<Rightarrow> string \<Rightarrow> bool
     \<Rightarrow> 'g session_state \<times> save_feedback" where
  "save_section L gdf st output label clicked =
     (if \<not> truthy output then (st, NoDrawing)
      else
        (case py_get output ''last_active_drawing'' JNull of
           Inl e \<Rightarrow> (st, Crashed e)
         | Inr d \<Rightarrow>
             (if \<not> truthy d then (st, NoDrawing)
              else
                (case py_subscript d ''geometry'' of
                   Inl e \<Rightarrow> (st, Crashed e)
                 | Inr gj \<Rightarrow>
                     (case shape L gj of
                        Inl e \<Rightarrow> (st, Crashed e)
                      | Inr new_poly \<Rightarrow>
                          (if \<not> list_ex (\<lambda>(l, z). equals L new_poly (geometry z)) (zones st)
                           then
                             (if clicked
                              then
                                (let inside = inside_of L gdf new_poly;
                                     col = palette ! (length (zones st) mod length palette)
                                 in (st\<lparr>zones := upsert (zones st) (JStr label)
                                                 (zone_record new_poly inside (JStr col))\<rparr>,
                                     Saved label (length (rows inside))))
                              else (st, Offered))
                           else (st, AlreadySaved)))))))"

section \<open>Summary and per-zone download\<close>

record summary_entry =
  shown_label :: json
  shown_count :: nat
  shown_table :: "string list \<times> json list list"
  csv :: string
  file_name :: string

definition shown_columns :: "string list" where
  "shown_columns =
     [''Customer ID'', ''Street Address'', ''Lifetime Net Sales'', ''Lifetime Avg Order Value'']"

definition summary_entry_of :: "'g lib \<Rightarrow> json \<times> 'g zone \<Rightarrow> exn + summary_entry" where
  "summary_entry_of L lz =
     (case select_columns shown_columns (data (snd lz)) of
        Inl e \<Rightarrow> Inl e
      | Inr t \<Rightarrow> Inr \<lparr>shown_label = fst lz, shown_count = count (snd lz), shown_table = t,
                     csv = to_csv L (data (snd lz)),
                     file_name = label_str L (fst lz) @ ''_Customers_'' @ VERSION @ ''.csv''\<rparr>)"

fun summary :: "'g lib \<Rightarrow> (json \<times> 'g zone) list \<Rightarrow> exn + summary_entry list" where
  "summary L [] = Inr []"
| "summary L (lz # zs) =
     (case summary_entry_of L lz of
        Inl e \<Rightarrow> Inl e
      | Inr x \<Rightarrow> (case summary L zs of Inl e \<Rightarrow> Inl e | Inr xs \<Rightarrow> Inr (x # xs)))"

section \<open>One run of the script, and sessions\<close>

record inputs =
  uploaded :: "string option"
  map_output :: json
  label_input :: string
  save_clicked :: bool

definition run :: "'g lib \<Rightarrow> frame \<Rightarrow> 'g session_state \<Rightarrow> inputs \<Rightarrow> 'g session_state" where
  "run L gdf st inp =
     fst (save_section L gdf (fst (import_section L gdf st (uploaded inp)))
            (map_output inp) (label_input inp) (save_clicked inp))"

definition run_all :: "'g lib \<Rightarrow> frame \<Rightarrow> inputs list \<Rightarrow> 'g session_state" where
  "run_all L gdf inps = foldl (run L gdf) initial_state inps"

section \<open>Properties of zones and stores\<close>

text \<open>A zone whose members and count are what the containment test gives on the roster.\<close>

definition roster_derived :: "'g lib \<Rightarrow> frame \<Rightarrow> 'g zone \<Rightarrow> bool" where
  "roster_derived L gdf z \<longleftrightarrow>
     data z = inside_of L gdf (geometry z) \<and> count z = length (rows (data z))"

definition is_str :: "json \<Rightarrow> bool" where
  "is_str j = (case j of JStr s \<Rightarrow> True | _ \<Rightarrow> False)"

text \<open>No two keys of the store are equal as dict keys.\<close>

fun distinct_keys :: "(json \<times> 'g zone) list \<Rightarrow> bool" where
  "distinct_keys [] = True"
| "distinct_keys ((k, v) # zs) = (list_all (\<lambda>(k', v'). \<not> key_eq k k') zs \<and> distinct_keys zs)"

text \<open>The zone that the legacy import builds from the exported form of a stored zone.\<close>

definition reimported :: "'g lib \<Rightarrow> frame \<Rightarrow> json \<times> 'g zone \<Rightarrow> json \<times> 'g zone" where
  "reimported L gdf lz =
     (fst lz,
      zone_record (projr (shape L (mapping L (geometry (snd lz)))))
        (inside_of L gdf (projr (shape L (mapping L (geometry (snd lz))))))
        (color (snd lz)))"

section \<open>A concrete instance of the libraries, for evaluating the model\<close>

text \<open>
  Geometries are axis-parallel rectangles given as a GeoJSON Polygon with one ring
  of five points, starting at the lower left corner; a point is within a rectangle
  when it is strictly inside. \<open>loads\<close> and \<open>dumps\<close> are tables of the documents used
  below, each with the value it parses to.
\<close>

datatype box = Box rat rat rat rat

fun coord :: "json \<Rightarrow> point option" where
  "coord (JArr [JInt x, JInt y]) = Some (of_int x, of_int y)"
| "coord (JArr [JFloat x, JFloat y]) = Some (x, y)"
| "coord _ = None"

fun ring_box :: "json \<Rightarrow> box option" where
  "ring_box (JArr [JArr [a, b, c, d, e]]) =
     (case (coord a, coord c) of
        (Some (x0, y0), Some (x1, y1)) \<Rightarrow>
          if coord b = Some (x1, y0) \<and> coord d = Some (x0, y1) \<and> coord e = Some (x0, y0)
             \<and> x0 < x1 \<and> y0 < y1
          then Some (Box x0 y0 x1 y1) else None
      | _ \<Rightarrow> None)"
| "ring_box _ = None"

definition sample_shape :: "json \<Rightarrow> exn + box" where
  "sample_shape j =
     (case j of
        JObj kv \<Rightarrow>
          (case map_of kv ''type'' of
             None \<Rightarrow> Inl AttributeError
           | Some t \<Rightarrow>
               if t = JStr ''Polygon'' then
                 (case ring_box (dict_get kv ''coordinates'' JNull) of
                    None \<Rightarrow> Inl ShapelyError
                  | Some b \<Rightarrow> Inr b)
               else Inl ShapelyError)
      | _ \<Rightarrow> Inl AttributeError)"

fun sample_mapping :: "box \<Rightarrow> json" where
  "sample_mapping (Box x0 y0 x1 y1) =
     JObj [(''type'', JStr ''Polygon''),
           (''coordinates'',
            JArr [JArr [JArr [JFloat x0, JFloat y0], JArr [JFloat x1, JFloat y0],
                        JArr [JFloat x1, JFloat y1], JArr [JFloat x0, JFloat y1],
                        JArr [JFloat x0, JFloat y0]]])]"

fun sample_within :: "point \<Rightarrow> box \<Rightarrow> bool" where
  "sample_within (x, y) (Box x0 y0 x1 y1) = (x0 < x \<and> x < x1 \<and> y0 < y \<and> y < y1)"

definition square :: "int \<Rightarrow> int \<Rightarrow> int \<Rightarrow> int \<Rightarrow> json" where
  "square x0 y0 x1 y1 =
     JObj [(''type'', JStr ''Polygon''),
           (''coordinates'',
            JArr [JArr [JArr [JInt x0, JInt y0], JArr [JInt x1, JInt y0],
                        JArr [JInt x1, JInt y1], JArr [JInt x0, JInt y1],
                        JArr [JInt x0, JInt y0]]])]"

definition doc_south :: string where
  \<open>doc_south = ''{"South": {"geometry": {"type": "Polygon", "coordinates": [[[4, 4], [6, 4], [6, 6], [4, 6], [4, 4]]]}}}''\<close>

definition doc_three :: string where
  \<open>doc_three = ''{"type": "FeatureCollection", "features": [{"geometry": {"type": "Polygon", "coordinates": [[[-1, -1], [1, -1], [1, 1], [-1, 1], [-1, -1]]]}, "properties": {"name": "A"}}, {"properties": {"name": "B"}}, {"geometry": {"type": "Polygon", "coordinates": [[[4, 4], [6, 4], [6, 6], [4, 6], [4, 4]]]}, "properties": {"name": "C"}}]}''\<close>

definition doc_seven :: string where
  \<open>doc_seven = ''{"type": "FeatureCollection", "features": [{"geometry": {"type": "Polygon", "coordinates": [[[-1, -1], [1, -1], [1, 1], [-1, 1], [-1, -1]]]}, "properties": {"name": 7}}]}''\<close>

definition doc_export_seven :: string where
  \<open>doc_export_seven = ''{"7": {"geometry": {"type": "Polygon", "coordinates": [[[-1.0, -1.0], [1.0, -1.0], [1.0, 1.0], [-1.0, 1.0], [-1.0, -1.0]]]}, "color": "red"}}''\<close>

definition doc_export_north :: string where
  \<open>doc_export_north = ''{"North": {"geometry": {"type": "Polygon", "coordinates": [[[-1.0, -1.0], [1.0, -1.0], [1.0, 1.0], [-1.0, 1.0], [-1.0, -1.0]]]}, "color": "red"}}''\<close>

definition doc_two :: string where
  \<open>doc_two = ''{"type": "FeatureCollection", "features": [{"geometry": {"type": "Polygon", "coordinates": [[[-1, -1], [1, -1], [1, 1], [-1, 1], [-1, -1]]]}, "properties": {"name": "A"}}, {"geometry": {"type": "Polygon", "coordinates": [[[4, 4], [6, 4], [6, 6], [4, 6], [4, 4]]]}, "properties": {"name": "C"}}]}''\<close>

definition doc_legacy :: string where
  \<open>doc_legacy = ''{"South": {"geometry": {"type": "Polygon", "coordinates": [[[4, 4], [6, 4], [6, 6], [4, 6], [4, 4]]]}, "color": "green"}, "North": {"geometry": {"type": "Polygon", "coordinates": [[[-1, -1], [1, -1], [1, 1], [-1, 1], [-1, -1]]]}}}''\<close>

definition exported_zone :: json where
  "exported_zone =
     JObj [(''geometry'', sample_mapping (Box (-1) (-1) 1 1)), (''color'', JStr ''red'')]"

definition feature_A :: json where
  "feature_A =
     JObj [(''geometry'', square (-1) (-1) 1 1), (''properties'', JObj [(''name'', JStr ''A'')])]"

definition feature_B :: json where
  "feature_B = JObj [(''properties'', JObj [(''name'', JStr ''B'')])]"

definition feature_C :: json where
  "feature_C =
     JObj [(''geometry'', square 4 4 6 6), (''properties'', JObj [(''name'', JStr ''C'')])]"

definition feature_7 :: json where
  "feature_7 =
     JObj [(''geometry'', square (-1) (-1) 1 1), (''properties'', JObj [(''name'', JInt 7)])]"

definition sample_docs :: "(string \<times> json) list" where
  "sample_docs =
     [(doc_south, JObj [(''South'', JObj [(''geometry'', square 4 4 6 6)])]),
      (doc_three,
       JObj [(''type'', JStr ''FeatureCollection''),
             (''features'', JArr [feature_A, feature_B, feature_C])]),
      (doc_seven,
       JObj [(''type'', JStr ''FeatureCollection''), (''features'', JArr [feature_7])]),
      (doc_export_seven, JObj [(''7'', exported_zone)]),
      (doc_export_north, JObj [(''North'', exported_zone)]),
      (doc_two,
       JObj [(''type'', JStr ''FeatureCollection''), (''features'', JArr [feature_A, feature_C])]),
      (doc_legacy,
       JObj [(''South'', JObj [(''geometry'', square 4 4 6 6), (''color'', JStr ''green'')]),
             (''North'', JObj [(''geometry'', square (-1) (-1) 1 1)])])]"

definition sample_dumped :: "((json \<times> json) list \<times> string) list" where
  "sample_dumped =
     [([(JInt 7, exported_zone)], doc_export_seven),
      ([(JStr ''North'', exported_zone)], doc_export_north)]"

definition join_commas :: "string list \<Rightarrow> string" where
  "join_commas xs = (case xs of [] \<Rightarrow> [] | y # ys \<Rightarrow> y @ concat (map (\<lambda>s. CHR '','' # s) ys))"

fun cell_text :: "json \<Rightarrow> string" where
  "cell_text (JStr s) = s"
| "cell_text (JInt i) = str_int i"
| "cell_text (JFloat r) = str_int \<lfloor>r\<rfloor> @ ''.0''"
| "cell_text (JBool b) = (if b then ''True'' else ''False'')"
| "cell_text _ = []"

definition wkt :: "point \<Rightarrow> string" where
  "wkt p = ''POINT ('' @ str_int \<lfloor>fst p\<rfloor> @ '' '' @ str_int \<lfloor>snd p\<rfloor> @ '')''"

definition sample_to_csv :: "frame \<Rightarrow> string" where
  "sample_to_csv f =
     concat (map (\<lambda>line. line @ [CHR 0x0A])
       (join_commas (columns f @ [''geometry''])
        # map (\<lambda>r. join_commas (map cell_text (cells r) @ [wkt (point r)])) (rows f)))"

definition sample_lib :: "box lib" where
  "sample_lib =
     \<lparr>shape = sample_shape, mapping = sample_mapping, within_geom = sample_within,
      equals = (=),
      loads = (\<lambda>b. case map_of sample_docs b of None \<Rightarrow> Inl ValueError | Some j \<Rightarrow> Inr j),
      dumps = (\<lambda>d. case map_of sample_dumped d of None \<Rightarrow> [] | Some s \<Rightarrow> s),
      hash = (\<lambda>b. int (length b)),
      to_csv = sample_to_csv,
      float_repr = (\<lambda>r. str_int \<lfloor>r\<rfloor> @ ''.0'')\<rparr>"

definition roster_columns :: "string list" where
  "roster_columns =
     [''Customer ID'', ''Street Address'', ''Lifetime Net Sales'', ''Lifetime Avg Order Value'',
      ''Latitude'', ''Longitude'']"

definition customer_A :: customer where
  "customer_A =
     \<lparr>cells = [JStr ''A'', JStr ''1 Main St'', JFloat 100, JFloat 10, JFloat 0, JFloat 0],
      point = (0, 0)\<rparr>"

definition customer_B :: customer where
  "customer_B =
     \<lparr>cells = [JStr ''B'', JStr ''2 High St'', JFloat 250, JFloat 25, JFloat 5, JFloat 5],
      point = (5, 5)\<rparr>"

definition sample_gdf :: frame where
  "sample_gdf = \<lparr>columns = roster_columns, rows = [customer_A, customer_B]\<rparr>"

text \<open>What \<open>st_folium\<close> returns after a shape with geometry \<open>g\<close> was drawn.\<close>

definition drawn :: "json \<Rightarrow> json" where
  "drawn g = JObj [(''last_active_drawing'', JObj [(''type'', JStr ''Feature''), (''geometry'', g)])]"

definition zone_north :: "box zone" where
  "zone_north =
     \<lparr>geometry = Box (-1) (-1) 1 1, data = sample_gdf\<lparr>rows := [customer_A]\<rparr>, count = 1,
      color = JStr ''red''\<rparr>"

text \<open>The session after the square around customer A was drawn and saved as North.\<close>

definition state_north :: "box session_state" where
  "state_north = \<lparr>zones = [(JStr ''North'', zone_north)], last_upload_hash = None\<rparr>"

definition zone_south :: "box zone" where
  "zone_south =
     \<lparr>geometry = Box 4 4 6 6, data = sample_gdf\<lparr>rows := [customer_B]\<rparr>, count = 1,
      color = JStr ''red''\<rparr>"

text \<open>The run in which the square around customer A is drawn and saved as North.\<close>

definition input_north :: inputs where
  "input_north =
     \<lparr>uploaded = None, map_output = drawn (square (-1) (-1) 1 1), label_input = ''North'',
      save_clicked = True\<rparr>"

definition entry_north :: summary_entry where
  "entry_north =
     \<lparr>shown_label = JStr ''North'', shown_count = 1,
      shown_table = (shown_columns, [[JStr ''A'', JStr ''1 Main St'', JFloat 100, JFloat 10]]),
      csv = ''Customer ID,Street Address,Lifetime Net Sales,Lifetime Avg Order Value,Latitude,Longitude,geometry''
            @ [CHR 0x0A] @ ''A,1 Main St,100.0,10.0,0.0,0.0,POINT (0 0)'' @ [CHR 0x0A],
      file_name = ''North_Customers_v1.4.csv''\<rparr>"

text \<open>
  The parts of a well-formed record of an import file: the fields of a feature, its
  properties, its name and the geometry \<open>shape\<close> makes of it; the label of a legacy
  entry, its fields and its geometry.
\<close>

record 'g feature_parts =
  feat_fields :: "(string \<times> json) list"
  feat_props :: "(string \<times> json) list"
  feat_name :: string
  feat_geom :: 'g

record 'g item_parts =
  item_label :: string
  item_fields :: "(string \<times> json) list"
  item_geom :: 'g

definition parts_A :: "box feature_parts" where
  "parts_A =
     \<lparr>feat_fields = [(''geometry'', square (-1) (-1) 1 1),
                     (''properties'', JObj [(''name'', JStr ''A'')])],
      feat_props = [(''name'', JStr ''A'')], feat_name = ''A'', feat_geom = Box (-1) (-1) 1 1\<rparr>"

definition parts_C :: "box feature_parts" where
  "parts_C =
     \<lparr>feat_fields = [(''geometry'', square 4 4 6 6),
                     (''properties'', JObj [(''name'', JStr ''C'')])],
      feat_props = [(''name'', JStr ''C'')], feat_name = ''C'', feat_geom = Box 4 4 6 6\<rparr>"

definition legacy_south :: "box item_parts" where
  "legacy_south =
     \<lparr>item_label = ''South'',
      item_fields = [(''geometry'', square 4 4 6 6), (''color'', JStr ''green'')],
      item_geom = Box 4 4 6 6\<rparr>"

definition legacy_north :: "box item_parts" where
  "legacy_north =
     \<lparr>item_label = ''North'', item_fields = [(''geometry'', square (-1) (-1) 1 1)],
      item_geom = Box (-1) (-1) 1 1\<rparr>"

section \<open>Evaluating the instance\<close>

lemma equals_sample [simp]: "equals sample_lib a b \<longleftrightarrow> a = b"
  by (simp add: sample_lib_def)

lemma shape_square [simp]:
  "x0 < x1 \<Longrightarrow> y0 < y1 \<Longrightarrow>
   shape sample_lib (square x0 y0 x1 y1) = Inr (Box (of_int x0) (of_int y0) (of_int x1) (of_int y1))"
  by (simp add: sample_lib_def sample_shape_def square_def dict_get_def)

lemma shape_empty [simp]: "shape sample_lib (JObj []) = Inl AttributeError"
  by (simp add: sample_lib_def sample_shape_def)

lemma inside_north [simp]:
  "inside_of sample_lib sample_gdf (Box (-1) (-1) 1 1) = sample_gdf\<lparr>rows := [customer_A]\<rparr>"
  by (simp add: sample_lib_def inside_of_def sample_gdf_def customer_A_def customer_B_def)

lemma inside_south [simp]:
  "inside_of sample_lib sample_gdf (Box 4 4 6 6) = sample_gdf\<lparr>rows := [customer_B]\<rparr>"
  by (simp add: sample_lib_def inside_of_def sample_gdf_def customer_A_def customer_B_def)

lemma save_north:
  "save_section sample_lib sample_gdf initial_state (drawn (square (-1) (-1) 1 1)) ''North'' True
     = (state_north, Saved ''North'' 1)"
  by (simp add: save_section_def drawn_def dict_get_def initial_state_def state_north_def
      zone_north_def zone_record_def palette_def Let_def)

lemma loads_sample:
  "loads sample_lib doc_south = Inr (JObj [(''South'', JObj [(''geometry'', square 4 4 6 6)])])"
  "loads sample_lib doc_three =
     Inr (JObj [(''type'', JStr ''FeatureCollection''),
                (''features'', JArr [feature_A, feature_B, feature_C])])"
  "loads sample_lib doc_seven =
     Inr (JObj [(''type'', JStr ''FeatureCollection''), (''features'', JArr [feature_7])])"
  "loads sample_lib doc_export_seven = Inr (JObj [(''7'', exported_zone)])"
  "loads sample_lib doc_export_north = Inr (JObj [(''North'', exported_zone)])"
  "loads sample_lib doc_two =
     Inr (JObj [(''type'', JStr ''FeatureCollection''), (''features'', JArr [feature_A, feature_C])])"
  "loads sample_lib doc_legacy =
     Inr (JObj [(''South'', JObj [(''geometry'', square 4 4 6 6), (''color'', JStr ''green'')]),
                (''North'', JObj [(''geometry'', square (-1) (-1) 1 1)])])"
  by (simp_all add: sample_lib_def sample_docs_def doc_south_def doc_three_def doc_seven_def
        doc_export_seven_def doc_export_north_def doc_two_def doc_legacy_def)

lemma import_bad_bytes:
  "import_section sample_lib sample_gdf initial_state (Some ''not json'')
     = (\<lparr>zones = [], last_upload_hash = Some 8\<rparr>, ImportFailed ValueError)"
  by (simp add: import_section_def import_data_def initial_state_def sample_lib_def sample_docs_def
        doc_south_def doc_three_def doc_seven_def doc_export_seven_def doc_export_north_def
        doc_two_def doc_legacy_def)

section \<open>The store\<close>

lemma key_eq_refl [simp]: "key_eq k k"
  by (simp add: key_eq_def split: option.splits)

lemma key_eq_JStr [simp]: "key_eq k (JStr a) \<longleftrightarrow> k = JStr a"
  by (cases k) (auto simp: key_eq_def)

lemma set_upsert: "(l, z) \<in> set (upsert zs k v) \<Longrightarrow> (l, z) \<in> set zs \<or> z = v"
  by (induction zs) (auto split: if_splits)

lemma upsert_JStr_mem: "(JStr s, v) \<in> set (upsert zs (JStr s) v)"
  by (induction zs) auto

section \<open>The upload fingerprint\<close>

lemma import_section_hash:
  "last_upload_hash (fst (import_section L gdf st (Some b))) = Some (hash L b)"
  by (auto simp: import_section_def Let_def split: prod.splits)

lemma import_section_same:
  "last_upload_hash st = Some (hash L b) \<Longrightarrow>
   import_section L gdf st (Some b) = (st, AlreadyImported)"
  by (simp add: import_section_def)

text \<open>
  C4. Whatever the bytes \<open>b\<close> and the session: after \<open>b\<close> has been submitted, submitting
  \<open>b\<close> again is recognised by its hash; the second submission leaves the whole session
  state (the zone store included) as the first left it and shows the notice that the
  file has already been imported, not an error and not the result of an import.
\<close>

theorem reimport_same_bytes_skipped:
  "import_section L gdf (fst (import_section L gdf st (Some b))) (Some b)
     = (fst (import_section L gdf st (Some b)), AlreadyImported)"
  by (rule import_section_same) (rule import_section_hash)

theorem reimport_same_bytes_skipped_witness:
  "import_section sample_lib sample_gdf \<lparr>zones = [], last_upload_hash = Some 8\<rparr> (Some ''not json'')
     = (\<lparr>zones = [], last_upload_hash = Some 8\<rparr>, AlreadyImported)"
  using reimport_same_bytes_skipped [of sample_lib sample_gdf initial_state "''not json''"]
  by (simp add: import_bad_bytes)

text \<open>
  C10. The fingerprint is stored before the bytes are parsed: after any submission of
  bytes \<open>b\<close> the stored fingerprint is the hash of \<open>b\<close>, whether the import succeeded
  or failed, and when the import failed, submitting \<open>b\<close> again is skipped as already
  imported and changes nothing.
\<close>

theorem fingerprint_set_before_parse:
  assumes "import_section L gdf st (Some b) = (st', fb)"
  shows "last_upload_hash st' = Some (hash L b)
         \<and> (fb = ImportFailed e \<longrightarrow> import_section L gdf st' (Some b) = (st', AlreadyImported))"
proof -
  have "last_upload_hash st' = Some (hash L b)"
    using import_section_hash [of L gdf st b] assms by simp
  then show ?thesis
    by (simp add: import_section_same)
qed

theorem fingerprint_set_before_parse_witness:
  "import_section sample_lib sample_gdf initial_state (Some ''not json'')
     = (\<lparr>zones = [], last_upload_hash = Some 8\<rparr>, ImportFailed ValueError)
   \<and> hash sample_lib ''not json'' = 8
   \<and> import_section sample_lib sample_gdf \<lparr>zones = [], last_upload_hash = Some 8\<rparr> (Some ''not json'')
     = (\<lparr>zones = [], last_upload_hash = Some 8\<rparr>, AlreadyImported)"
  using fingerprint_set_before_parse [OF import_bad_bytes, of ValueError] import_bad_bytes
  by simp

section \<open>Saving a drawn polygon\<close>

lemma drawing_truthy:
  assumes "py_get out ''last_active_drawing'' JNull = Inr d"
      and "py_subscript d ''geometry'' = Inr gj"
  shows "truthy out \<and> truthy d"
proof -
  obtain kv' where d: "d = JObj kv'" and gj: "map_of kv' ''geometry'' = Some gj"
    using assms(2) by (cases d) (auto split: option.splits)
  from gj have "kv' \<noteq> []" by auto
  with d have td: "truthy d" by simp
  obtain kv where out: "out = JObj kv" and dk: "dict_get kv ''last_active_drawing'' JNull = d"
    using assms(1) by (cases out) auto
  have "kv \<noteq> []"
    using dk d by (auto simp: dict_get_def)
  with out td show ?thesis by simp
qed

lemma save_section_saves:
  assumes "py_get out ''last_active_drawing'' JNull = Inr d"
      and "py_subscript d ''geometry'' = Inr gj"
      and "shape L gj = Inr p"
      and "\<forall>(l, z) \<in> set (zones st). \<not> equals L p (geometry z)"
  shows "save_section L gdf st out label True
           = (st\<lparr>zones := upsert (zones st) (JStr label)
                    (zone_record p (inside_of L gdf p)
                       (JStr (palette ! (length (zones st) mod length palette))))\<rparr>,
              Saved label (length (rows (inside_of L gdf p))))"
proof -
  have "\<not> list_ex (\<lambda>(l, z). equals L p (geometry z)) (zones st)"
    using assms(4) by (auto simp: list_ex_iff)
  with drawing_truthy [OF assms(1,2)] assms(1,2,3) show ?thesis
    by (simp add: save_section_def Let_def)
qed

text \<open>
  C6. When a polygon \<open>p\<close> has been drawn that equals no stored geometry and the Save
  button is pressed, the run stores under the entered label a zone with geometry \<open>p\<close>
  whose colour is \<open>palette[N mod len(palette)]\<close>, \<open>N\<close> the number of zones in the store
  before the save, with the palette red, blue, green, purple, orange. (A drawn save
  has no colour override in the script.)
\<close>

theorem drawn_save_color_cycles:
  assumes "py_get out ''last_active_drawing'' JNull = Inr d"
      and "py_subscript d ''geometry'' = Inr gj"
      and "shape L gj = Inr p"
      and "\<forall>(l, z) \<in> set (zones st). \<not> equals L p (geometry z)"
  shows "\<exists>z. save_section L gdf st out label True
               = (st\<lparr>zones := upsert (zones st) (JStr label) z\<rparr>,
                  Saved label (length (rows (data z))))
           \<and> (JStr label, z) \<in> set (zones (fst (save_section L gdf st out label True)))
           \<and> geometry z = p
           \<and> color z = JStr (palette ! (length (zones st) mod length palette))
           \<and> palette = [''red'', ''blue'', ''green'', ''purple'', ''orange'']"
proof -
  let ?z = "zone_record p (inside_of L gdf p)
              (JStr (palette ! (length (zones st) mod length palette)))"
  have "save_section L gdf st out label True
          = (st\<lparr>zones := upsert (zones st) (JStr label) ?z\<rparr>, Saved label (length (rows (data ?z))))"
    using save_section_saves [OF assms] by (simp add: zone_record_def)
  moreover have "(JStr label, ?z) \<in> set (upsert (zones st) (JStr label) ?z)"
    by (rule upsert_JStr_mem)
  moreover have "geometry ?z = p"
      and "color ?z = JStr (palette ! (length (zones st) mod length palette))"
    by (simp_all add: zone_record_def)
  ultimately show ?thesis
    by (intro exI [of _ ?z]) (simp add: palette_def)
qed

theorem drawn_save_color_cycles_witness:
  "\<exists>z. save_section sample_lib sample_gdf state_north (drawn (square 4 4 6 6)) ''South'' True
          = (state_north\<lparr>zones := upsert (zones state_north) (JStr ''South'') z\<rparr>,
             Saved ''South'' (length (rows (data z))))
      \<and> (JStr ''South'', z)
          \<in> set (zones (fst (save_section sample_lib sample_gdf state_north
                                (drawn (square 4 4 6 6)) ''South'' True)))
      \<and> geometry z = Box 4 4 6 6
      \<and> color z = JStr ''blue''"
proof -
  have h1: "py_get (drawn (square 4 4 6 6)) ''last_active_drawing'' JNull
              = Inr (JObj [(''type'', JStr ''Feature''), (''geometry'', square 4 4 6 6)])"
    by (simp add: drawn_def dict_get_def)
  have h2: "py_subscript (JObj [(''type'', JStr ''Feature''), (''geometry'', square 4 4 6 6)])
              ''geometry'' = Inr (square 4 4 6 6)"
    by simp
  have h3: "shape sample_lib (square 4 4 6 6) = Inr (Box 4 4 6 6)"
    by simp
  have h4: "\<forall>(l, z) \<in> set (zones state_north). \<not> equals sample_lib (Box 4 4 6 6) (geometry z)"
    by (simp add: state_north_def zone_north_def)
  have blue: "palette ! (length (zones state_north) mod length palette) = ''blue''"
    by (simp add: state_north_def palette_def)
  from drawn_save_color_cycles [OF h1 h2 h3 h4, of sample_gdf "''South''"] blue
  show ?thesis by auto
qed

text \<open>
  C3. When the drawn polygon \<open>p\<close> equals (by the library's geometric \<open>equals\<close>) the
  geometry of some stored zone, the save is not offered: whatever the label and
  whether or not the button is pressed, the session state stays as it was.
\<close>

theorem duplicate_shape_not_saved:
  assumes "py_get out ''last_active_drawing'' JNull = Inr d"
      and "py_subscript d ''geometry'' = Inr gj"
      and "shape L gj = Inr p"
      and "(l, z) \<in> set (zones st)"
      and "equals L p (geometry z)"
  shows "save_section L gdf st out label clicked = (st, AlreadySaved)"
proof -
  obtain kv' where d: "d = JObj kv'" and gj: "map_of kv' ''geometry'' = Some gj"
    using assms(2) by (cases d) (auto split: option.splits)
  from gj have "kv' \<noteq> []" by auto
  with d have td: "truthy d" by simp
  obtain kv where out: "out = JObj kv" and dk: "dict_get kv ''last_active_drawing'' JNull = d"
    using assms(1) by (cases out) auto
  have "kv \<noteq> []"
    using dk d by (auto simp: dict_get_def)
  with out have tout: "truthy out" by simp
  have ex: "list_ex (\<lambda>(l, z). equals L p (geometry z)) (zones st)"
    using assms(4,5) by (auto simp: list_ex_iff)
  show ?thesis
    using tout td ex assms(1,2,3) by (simp add: save_section_def)
qed

theorem duplicate_shape_not_saved_witness:
  "save_section sample_lib sample_gdf state_north (drawn (square (-1) (-1) 1 1)) ''Other'' True
     = (state_north, AlreadySaved)"
  by (rule duplicate_shape_not_saved
        [where d = "JObj [(''type'', JStr ''Feature''), (''geometry'', square (-1) (-1) 1 1)]"
           and gj = "square (-1) (-1) 1 1" and p = "Box (-1) (-1) 1 1"
           and l = "JStr ''North''" and z = zone_north])
     (simp_all add: drawn_def dict_get_def state_north_def zone_north_def)

section \<open>Membership\<close>

lemma roster_derived_zone_record [simp]:
  "roster_derived L gdf (zone_record geom (inside_of L gdf geom) col)"
  by (simp add: roster_derived_def zone_record_def)

lemma import_feature_Inr:
  assumes "import_feature L gdf zs feat = Inr zs'"
  shows "\<exists>label geom col. zs' = upsert zs label (zone_record geom (inside_of L gdf geom) col)"
  using assms
  by (simp add: import_feature_def setitem_def split: sum.splits if_splits) blast

lemma import_feature_set:
  assumes "import_feature L gdf zs feat = Inr zs'" and "(l, z) \<in> set zs'"
  shows "(l, z) \<in> set zs \<or> roster_derived L gdf z"
proof -
  from import_feature_Inr [OF assms(1)] obtain label geom col
    where "zs' = upsert zs label (zone_record geom (inside_of L gdf geom) col)" by blast
  with assms(2) set_upsert show ?thesis by fastforce
qed

lemma import_features_set:
  assumes "import_features L gdf zs n feats = (zs', r)" and "(l, z) \<in> set zs'"
  shows "(l, z) \<in> set zs \<or> roster_derived L gdf z"
  using assms
proof (induction feats arbitrary: zs n)
  case Nil
  then show ?case by simp
next
  case (Cons feat feats)
  show ?case
  proof (cases "import_feature L gdf zs feat")
    case (Inl e)
    with Cons.prems show ?thesis by simp
  next
    case (Inr zs1)
    with Cons.prems have "import_features L gdf zs1 (n + 1) feats = (zs', r)" by simp
    from Cons.IH [OF this Cons.prems(2)] import_feature_set [OF Inr]
    show ?thesis by blast
  qed
qed

lemma import_item_Inr:
  assumes "import_item L gdf zs item = Inr zs'"
  shows "\<exists>geom col. zs' = upsert zs (JStr (fst item)) (zone_record geom (inside_of L gdf geom) col)"
  using assms
  by (simp add: import_item_def setitem_def split: sum.splits if_splits) blast

lemma import_item_set:
  assumes "import_item L gdf zs item = Inr zs'" and "(l, z) \<in> set zs'"
  shows "(l, z) \<in> set zs \<or> roster_derived L gdf z"
proof -
  from import_item_Inr [OF assms(1)] obtain geom col
    where "zs' = upsert zs (JStr (fst item)) (zone_record geom (inside_of L gdf geom) col)" by blast
  with assms(2) set_upsert show ?thesis by fastforce
qed

lemma import_items_set:
  assumes "import_items L gdf zs items = (zs', r)" and "(l, z) \<in> set zs'"
  shows "(l, z) \<in> set zs \<or> roster_derived L gdf z"
  using assms
proof (induction items arbitrary: zs)
  case Nil
  then show ?case by simp
next
  case (Cons item items)
  show ?case
  proof (cases "import_item L gdf zs item")
    case (Inl e)
    with Cons.prems show ?thesis by simp
  next
    case (Inr zs1)
    with Cons.prems have "import_items L gdf zs1 items = (zs', r)" by simp
    from Cons.IH [OF this Cons.prems(2)] import_item_set [OF Inr]
    show ?thesis by blast
  qed
qed

lemma import_data_set:
  assumes "import_data L gdf zs b = (zs', fb)" and "(l, z) \<in> set zs'"
  shows "(l, z) \<in> set zs \<or> roster_derived L gdf z"
  using assms
  by (auto simp: import_data_def split: sum.splits if_splits prod.splits json.splits option.splits
           dest: import_features_set import_items_set)

lemma import_section_set:
  assumes "(l, z) \<in> set (zones (fst (import_section L gdf st up)))"
  shows "(l, z) \<in> set (zones st) \<or> roster_derived L gdf z"
  using assms
  by (auto simp: import_section_def Let_def split: option.splits if_splits prod.splits
           dest: import_data_set)

lemma save_section_set:
  assumes "(l, z) \<in> set (zones (fst (save_section L gdf st out label clicked)))"
  shows "(l, z) \<in> set (zones st) \<or> roster_derived L gdf z"
  using assms
  by (auto simp: save_section_def Let_def split: sum.splits if_splits dest!: set_upsert)

lemma upsert_keeps:
  "(l, z) \<in> set zs \<Longrightarrow> \<not> key_eq l k \<Longrightarrow> (l, z) \<in> set (upsert zs k v)"
  by (induction zs) auto

lemma import_feature_good:
  assumes "shape L (dict_get fkv ''geometry'' (JObj [])) = Inr g"
      and "dict_get fkv ''properties'' (JObj []) = JObj props"
      and "map_of props ''name'' = Some (JStr name)"
  shows "import_feature L gdf zs (JObj fkv)
           = Inr (upsert zs (JStr name)
                    (zone_record g (inside_of L gdf g) (dict_get props ''color'' (JStr ''red''))))"
proof -
  have "dict_get props ''name'' dflt = JStr name" for dflt
    using assms(3) by (simp add: dict_get_def)
  with assms(1,2) show ?thesis
    by (simp add: import_feature_def setitem_def)
qed

lemma import_item_good:
  assumes "shape L (dict_get ikv ''geometry'' (JObj [])) = Inr g"
  shows "import_item L gdf zs (k, JObj ikv)
           = Inr (upsert zs (JStr k)
                    (zone_record g (inside_of L gdf g) (dict_get ikv ''color'' (JStr ''red''))))"
  using assms by (simp add: import_item_def setitem_def)

lemma import_features_good:
  assumes "\<forall>r \<in> set recs.
             shape L (dict_get (feat_fields r) ''geometry'' (JObj [])) = Inr (feat_geom r)
             \<and> dict_get (feat_fields r) ''properties'' (JObj []) = JObj (feat_props r)
             \<and> map_of (feat_props r) ''name'' = Some (JStr (feat_name r))"
      and "distinct (map feat_name recs)"
  shows "\<exists>zs'. import_features L gdf zs n (map (\<lambda>r. JObj (feat_fields r)) recs)
                 = (zs', Inr (n + length recs))
           \<and> (\<forall>r \<in> set recs.
                 (JStr (feat_name r),
                  zone_record (feat_geom r) (inside_of L gdf (feat_geom r))
                    (dict_get (feat_props r) ''color'' (JStr ''red''))) \<in> set zs')
           \<and> (\<forall>s z. (JStr s, z) \<in> set zs \<longrightarrow> s \<notin> feat_name ` set recs
                 \<longrightarrow> (JStr s, z) \<in> set zs')"
  using assms
proof (induction recs arbitrary: zs n)
  case Nil
  then show ?case by simp
next
  case (Cons r recs)
  let ?z = "zone_record (feat_geom r) (inside_of L gdf (feat_geom r))
              (dict_get (feat_props r) ''color'' (JStr ''red''))"
  let ?zs1 = "upsert zs (JStr (feat_name r)) ?z"
  from Cons.prems(1) have step: "import_feature L gdf zs (JObj (feat_fields r)) = Inr ?zs1"
    by (intro import_feature_good) auto
  from Cons.prems(2) have fresh: "feat_name r \<notin> feat_name ` set recs"
    by auto
  have "\<forall>r \<in> set recs.
             shape L (dict_get (feat_fields r) ''geometry'' (JObj [])) = Inr (feat_geom r)
             \<and> dict_get (feat_fields r) ''properties'' (JObj []) = JObj (feat_props r)
             \<and> map_of (feat_props r) ''name'' = Some (JStr (feat_name r))"
    using Cons.prems(1) by simp
  moreover have "distinct (map feat_name recs)"
    using Cons.prems(2) by simp
  ultimately obtain zs' where
      run: "import_features L gdf ?zs1 (n + 1) (map (\<lambda>r. JObj (feat_fields r)) recs)
              = (zs', Inr (n + 1 + length recs))"
      and stored: "\<forall>r \<in> set recs.
                 (JStr (feat_name r),
                  zone_record (feat_geom r) (inside_of L gdf (feat_geom r))
                    (dict_get (feat_props r) ''color'' (JStr ''red''))) \<in> set zs'"
      and kept: "\<forall>s z. (JStr s, z) \<in> set ?zs1 \<longrightarrow> s \<notin> feat_name ` set recs
                 \<longrightarrow> (JStr s, z) \<in> set zs'"
    using Cons.IH [of ?zs1 "n + 1"] by blast
  have first: "(JStr (feat_name r), ?z) \<in> set zs'"
    using kept fresh upsert_JStr_mem [of "feat_name r" ?z zs] by blast
  have old: "(JStr s, z) \<in> set zs'"
    if "(JStr s, z) \<in> set zs" and "s \<notin> feat_name ` set (r # recs)" for s z
  proof -
    from that(2) have "s \<noteq> feat_name r" and rest: "s \<notin> feat_name ` set recs"
      by auto
    then have "(JStr s, z) \<in> set ?zs1"
      using that(1) by (intro upsert_keeps) auto
    with kept rest show ?thesis by blast
  qed
  have "import_features L gdf zs n (map (\<lambda>r. JObj (feat_fields r)) (r # recs))
          = (zs', Inr (n + length (r # recs)))"
    using step run by simp
  with first stored old show ?case
    by (intro exI [of _ zs']) auto
qed

lemma import_items_good:
  assumes "\<forall>r \<in> set recs.
             shape L (dict_get (item_fields r) ''geometry'' (JObj [])) = Inr (item_geom r)"
      and "distinct (map item_label recs)"
  shows "\<exists>zs'. import_items L gdf zs (map (\<lambda>r. (item_label r, JObj (item_fields r))) recs)
                 = (zs', None)
           \<and> (\<forall>r \<in> set recs.
                 (JStr (item_label r),
                  zone_record (item_geom r) (inside_of L gdf (item_geom r))
                    (dict_get (item_fields r) ''color'' (JStr ''red''))) \<in> set zs')
           \<and> (\<forall>s z. (JStr s, z) \<in> set zs \<longrightarrow> s \<notin> item_label ` set recs
                 \<longrightarrow> (JStr s, z) \<in> set zs')"
  using assms
proof (induction recs arbitrary: zs)
  case Nil
  then show ?case by simp
next
  case (Cons r recs)
  let ?z = "zone_record (item_geom r) (inside_of L gdf (item_geom r))
              (dict_get (item_fields r) ''color'' (JStr ''red''))"
  let ?zs1 = "upsert zs (JStr (item_label r)) ?z"
  from Cons.prems(1) have step: "import_item L gdf zs (item_label r, JObj (item_fields r)) = Inr ?zs1"
    by (intro import_item_good) auto
  from Cons.prems(2) have fresh: "item_label r \<notin> item_label ` set recs"
    by auto
  have "\<forall>r \<in> set recs.
             shape L (dict_get (item_fields r) ''geometry'' (JObj [])) = Inr (item_geom r)"
    using Cons.prems(1) by simp
  moreover have "distinct (map item_label recs)"
    using Cons.prems(2) by simp
  ultimately obtain zs' where
      run: "import_items L gdf ?zs1 (map (\<lambda>r. (item_label r, JObj (item_fields r))) recs)
              = (zs', None)"
      and stored: "\<forall>r \<in> set recs.
                 (JStr (item_label r),
                  zone_record (item_geom r) (inside_of L gdf (item_geom r))
                    (dict_get (item_fields r) ''color'' (JStr ''red''))) \<in> set zs'"
      and kept: "\<forall>s z. (JStr s, z) \<in> set ?zs1 \<longrightarrow> s \<notin> item_label ` set recs
                 \<longrightarrow> (JStr s, z) \<in> set zs'"
    using Cons.IH [of ?zs1] by blast
  have first: "(JStr (item_label r), ?z) \<in> set zs'"
    using kept fresh upsert_JStr_mem [of "item_label r" ?z zs] by blast
  have old: "(JStr s, z) \<in> set zs'"
    if "(JStr s, z) \<in> set zs" and "s \<notin> item_label ` set (r # recs)" for s z
  proof -
    from that(2) have "s \<noteq> item_label r" and rest: "s \<notin> item_label ` set recs"
      by auto
    then have "(JStr s, z) \<in> set ?zs1"
      using that(1) by (intro upsert_keeps) auto
    with kept rest show ?thesis by blast
  qed
  have "import_items L gdf zs (map (\<lambda>r. (item_label r, JObj (item_fields r))) (r # recs))
          = (zs', None)"
    using step run by simp
  with first stored old show ?case
    by (intro exI [of _ zs']) auto
qed

lemma import_collection_good:
  assumes "Some (hash L b) \<noteq> last_upload_hash st"
      and "loads L b = Inr d"
      and "is_feature_collection d"
      and "py_subscript d ''features'' = Inr fs"
      and "py_iter fs = Inr (map (\<lambda>r. JObj (feat_fields r)) recs)"
      and "\<forall>r \<in> set recs.
             shape L (dict_get (feat_fields r) ''geometry'' (JObj [])) = Inr (feat_geom r)
             \<and> dict_get (feat_fields r) ''properties'' (JObj []) = JObj (feat_props r)
             \<and> map_of (feat_props r) ''name'' = Some (JStr (feat_name r))"
      and "distinct (map feat_name recs)"
  shows "snd (import_section L gdf st (Some b)) = ImportedGeoJSON (length recs)
         \<and> (\<forall>r \<in> set recs.
               (JStr (feat_name r),
                zone_record (feat_geom r) (inside_of L gdf (feat_geom r))
                  (dict_get (feat_props r) ''color'' (JStr ''red'')))
               \<in> set (zones (fst (import_section L gdf st (Some b)))))"
proof -
  from import_features_good [OF assms(6,7), of gdf "zones st" 0] obtain zs' where
      run: "import_features L gdf (zones st) 0 (map (\<lambda>r. JObj (feat_fields r)) recs)
              = (zs', Inr (length recs))"
      and stored: "\<forall>r \<in> set recs.
                 (JStr (feat_name r),
                  zone_record (feat_geom r) (inside_of L gdf (feat_geom r))
                    (dict_get (feat_props r) ''color'' (JStr ''red''))) \<in> set zs'"
    by auto
  from run assms(2-5) have "import_data L gdf (zones st) b = (zs', ImportedGeoJSON (length recs))"
    by (simp add: import_data_def)
  with assms(1) have "import_section L gdf st (Some b)
      = (\<lparr>zones = zs', last_upload_hash = Some (hash L b)\<rparr>, ImportedGeoJSON (length recs))"
    by (simp add: import_section_def)
  with stored show ?thesis by simp
qed

lemma import_legacy_good:
  assumes "Some (hash L b) \<noteq> last_upload_hash st"
      and "loads L b = Inr (JObj (map (\<lambda>r. (item_label r, JObj (item_fields r))) recs))"
      and "\<forall>r \<in> set recs.
             shape L (dict_get (item_fields r) ''geometry'' (JObj [])) = Inr (item_geom r)"
      and "distinct (map item_label recs)"
  shows "snd (import_section L gdf st (Some b)) = ImportedJSON (length recs)
         \<and> (\<forall>r \<in> set recs.
               (JStr (item_label r),
                zone_record (item_geom r) (inside_of L gdf (item_geom r))
                  (dict_get (item_fields r) ''color'' (JStr ''red'')))
               \<in> set (zones (fst (import_section L gdf st (Some b)))))"
proof -
  let ?kv = "map (\<lambda>r. (item_label r, JObj (item_fields r))) recs"
  have "v \<noteq> JStr ''FeatureCollection''" if "map_of ?kv ''type'' = Some v" for v
    using map_of_SomeD [OF that] by auto
  then have legacy: "\<not> is_feature_collection (JObj ?kv)"
    by (auto simp: is_feature_collection_def dict_get_def split: option.splits)
  from import_items_good [OF assms(3,4), of gdf "zones st"] obtain zs' where
      run: "import_items L gdf (zones st) ?kv = (zs', None)"
      and stored: "\<forall>r \<in> set recs.
                 (JStr (item_label r),
                  zone_record (item_geom r) (inside_of L gdf (item_geom r))
                    (dict_get (item_fields r) ''color'' (JStr ''red''))) \<in> set zs'"
    by auto
  from run assms(2) legacy have "import_data L gdf (zones st) b = (zs', ImportedJSON (length recs))"
    by (simp add: import_data_def)
  with assms(1) have "import_section L gdf st (Some b)
      = (\<lparr>zones = zs', last_upload_hash = Some (hash L b)\<rparr>, ImportedJSON (length recs))"
    by (simp add: import_section_def)
  with stored show ?thesis by simp
qed

lemma zone_record_members:
  "geometry (zone_record g (inside_of L gdf g) col) = g
   \<and> rows (data (zone_record g (inside_of L gdf g) col))
       = filter (\<lambda>c. within_geom L (point c) g) (rows gdf)
   \<and> count (zone_record g (inside_of L gdf g) col)
       = length (rows (data (zone_record g (inside_of L gdf g) col)))"
  by (simp add: zone_record_def inside_of_def)

text \<open>
  C1. On each creation path the stored zone's members are exactly the roster rows
  whose point the library's \<open>within\<close> test accepts for the zone's geometry, in roster
  order, and its count is their number: (1) a drawn polygon that equals no stored
  geometry, saved with the button; (2) a feature collection all of whose features
  have a geometry that \<open>shape\<close> accepts and a name, the names being distinct strings;
  (3) a legacy file all of whose entries have a geometry that \<open>shape\<close> accepts (the
  import then reports as many zones as the file has records, and each record's zone
  is in the store under its label); and (4) whatever the upload and the drawing,
  every entry that an import or a save adds to or changes in the store. So a customer
  of the roster is a member iff the test accepts its point. (The test itself,
  shapely's \<open>within\<close>, is a parameter.)
\<close>

theorem members_are_roster_within:
  "(py_get out ''last_active_drawing'' JNull = Inr d \<longrightarrow> py_subscript d ''geometry'' = Inr gj
      \<longrightarrow> shape L gj = Inr p \<longrightarrow> (\<forall>(l, z) \<in> set (zones sa). \<not> equals L p (geometry z))
      \<longrightarrow> (\<exists>z. zones (fst (save_section L gdf sa out label True))
                   = upsert (zones sa) (JStr label) z
               \<and> (JStr label, z) \<in> set (zones (fst (save_section L gdf sa out label True)))
               \<and> geometry z = p
               \<and> rows (data z) = filter (\<lambda>c. within_geom L (point c) p) (rows gdf)
               \<and> count z = length (rows (data z))))
   \<and> (Some (hash L bb) \<noteq> last_upload_hash sb \<longrightarrow> loads L bb = Inr db
      \<longrightarrow> is_feature_collection db \<longrightarrow> py_subscript db ''features'' = Inr fs
      \<longrightarrow> py_iter fs = Inr (map (\<lambda>r. JObj (feat_fields r)) feats)
      \<longrightarrow> (\<forall>r \<in> set feats.
             shape L (dict_get (feat_fields r) ''geometry'' (JObj [])) = Inr (feat_geom r)
             \<and> dict_get (feat_fields r) ''properties'' (JObj []) = JObj (feat_props r)
             \<and> map_of (feat_props r) ''name'' = Some (JStr (feat_name r)))
      \<longrightarrow> distinct (map feat_name feats)
      \<longrightarrow> snd (import_section L gdf sb (Some bb)) = ImportedGeoJSON (length feats)
          \<and> (\<forall>r \<in> set feats. \<exists>z.
                (JStr (feat_name r), z) \<in> set (zones (fst (import_section L gdf sb (Some bb))))
                \<and> geometry z = feat_geom r
                \<and> rows (data z) = filter (\<lambda>c. within_geom L (point c) (feat_geom r)) (rows gdf)
                \<and> count z = length (rows (data z))))
   \<and> (Some (hash L bc) \<noteq> last_upload_hash sc
      \<longrightarrow> loads L bc = Inr (JObj (map (\<lambda>r. (item_label r, JObj (item_fields r))) items))
      \<longrightarrow> (\<forall>r \<in> set items.
             shape L (dict_get (item_fields r) ''geometry'' (JObj [])) = Inr (item_geom r))
      \<longrightarrow> distinct (map item_label items)
      \<longrightarrow> snd (import_section L gdf sc (Some bc)) = ImportedJSON (length items)
          \<and> (\<forall>r \<in> set items. \<exists>z.
                (JStr (item_label r), z) \<in> set (zones (fst (import_section L gdf sc (Some bc))))
                \<and> geometry z = item_geom r
                \<and> rows (data z) = filter (\<lambda>c. within_geom L (point c) (item_geom r)) (rows gdf)
                \<and> count z = length (rows (data z))))
   \<and> ((l, z) \<in> set (zones (fst (import_section L gdf st up)))
                \<union> set (zones (fst (save_section L gdf st out' label' clicked)))
      \<longrightarrow> (l, z) \<notin> set (zones st)
      \<longrightarrow> rows (data z) = filter (\<lambda>c. within_geom L (point c) (geometry z)) (rows gdf)
          \<and> count z = length (rows (data z))
          \<and> (\<forall>c \<in> set (rows gdf).
                c \<in> set (rows (data z)) \<longleftrightarrow> within_geom L (point c) (geometry z)))"
proof (intro conjI impI)
  assume h: "py_get out ''last_active_drawing'' JNull = Inr d" "py_subscript d ''geometry'' = Inr gj"
    "shape L gj = Inr p" "\<forall>(l, z) \<in> set (zones sa). \<not> equals L p (geometry z)"
  let ?z = "zone_record p (inside_of L gdf p)
              (JStr (palette ! (length (zones sa) mod length palette)))"
  have "zones (fst (save_section L gdf sa out label True)) = upsert (zones sa) (JStr label) ?z"
    using save_section_saves [OF h] by simp
  with upsert_JStr_mem [of label ?z "zones sa"] zone_record_members [of p L gdf]
  show "\<exists>z. zones (fst (save_section L gdf sa out label True))
                   = upsert (zones sa) (JStr label) z
               \<and> (JStr label, z) \<in> set (zones (fst (save_section L gdf sa out label True)))
               \<and> geometry z = p
               \<and> rows (data z) = filter (\<lambda>c. within_geom L (point c) p) (rows gdf)
               \<and> count z = length (rows (data z))"
    by (intro exI [of _ ?z]) simp
next
  assume h: "Some (hash L bb) \<noteq> last_upload_hash sb" "loads L bb = Inr db"
    "is_feature_collection db" "py_subscript db ''features'' = Inr fs"
    "py_iter fs = Inr (map (\<lambda>r. JObj (feat_fields r)) feats)"
    "\<forall>r \<in> set feats.
             shape L (dict_get (feat_fields r) ''geometry'' (JObj [])) = Inr (feat_geom r)
             \<and> dict_get (feat_fields r) ''properties'' (JObj []) = JObj (feat_props r)
             \<and> map_of (feat_props r) ''name'' = Some (JStr (feat_name r))"
    "distinct (map feat_name feats)"
  from import_collection_good [OF h, of gdf]
  show "snd (import_section L gdf sb (Some bb)) = ImportedGeoJSON (length feats)" by simp
  from import_collection_good [OF h, of gdf] zone_record_members [of _ L gdf]
  show "\<forall>r \<in> set feats. \<exists>z.
                (JStr (feat_name r), z) \<in> set (zones (fst (import_section L gdf sb (Some bb))))
                \<and> geometry z = feat_geom r
                \<and> rows (data z) = filter (\<lambda>c. within_geom L (point c) (feat_geom r)) (rows gdf)
                \<and> count z = length (rows (data z))"
    by blast
next
  assume h: "Some (hash L bc) \<noteq> last_upload_hash sc"
    "loads L bc = Inr (JObj (map (\<lambda>r. (item_label r, JObj (item_fields r))) items))"
    "\<forall>r \<in> set items.
             shape L (dict_get (item_fields r) ''geometry'' (JObj [])) = Inr (item_geom r)"
    "distinct (map item_label items)"
  from import_legacy_good [OF h, of gdf]
  show "snd (import_section L gdf sc (Some bc)) = ImportedJSON (length items)" by simp
  from import_legacy_good [OF h, of gdf] zone_record_members [of _ L gdf]
  show "\<forall>r \<in> set items. \<exists>z.
                (JStr (item_label r), z) \<in> set (zones (fst (import_section L gdf sc (Some bc))))
                \<and> geometry z = item_geom r
                \<and> rows (data z) = filter (\<lambda>c. within_geom L (point c) (item_geom r)) (rows gdf)
                \<and> count z = length (rows (data z))"
    by blast
next
  assume "(l, z) \<in> set (zones (fst (import_section L gdf st up)))
                \<union> set (zones (fst (save_section L gdf st out' label' clicked)))"
    and "(l, z) \<notin> set (zones st)"
  then have rd: "roster_derived L gdf z"
    using import_section_set save_section_set by blast
  from rd show "rows (data z) = filter (\<lambda>c. within_geom L (point c) (geometry z)) (rows gdf)"
    by (simp add: roster_derived_def inside_of_def)
  from rd show "count z = length (rows (data z))"
    by (simp add: roster_derived_def)
  from rd show "\<forall>c \<in> set (rows gdf).
                c \<in> set (rows (data z)) \<longleftrightarrow> within_geom L (point c) (geometry z)"
    by (auto simp: roster_derived_def inside_of_def)
qed

lemma filter_north:
  "filter (\<lambda>c. within_geom sample_lib (point c) (Box (-1) (-1) 1 1)) (rows sample_gdf) = [customer_A]"
  by (simp add: sample_lib_def sample_gdf_def customer_A_def customer_B_def)

lemma filter_south:
  "filter (\<lambda>c. within_geom sample_lib (point c) (Box 4 4 6 6)) (rows sample_gdf) = [customer_B]"
  by (simp add: sample_lib_def sample_gdf_def customer_A_def customer_B_def)

theorem members_are_roster_within_witness:
  "(\<exists>z. (JStr ''North'', z)
          \<in> set (zones (fst (save_section sample_lib sample_gdf initial_state
                                (drawn (square (-1) (-1) 1 1)) ''North'' True)))
        \<and> rows (data z) = [customer_A] \<and> count z = 1)
   \<and> snd (import_section sample_lib sample_gdf initial_state (Some doc_two)) = ImportedGeoJSON 2
   \<and> (\<exists>z. (JStr ''A'', z)
          \<in> set (zones (fst (import_section sample_lib sample_gdf initial_state (Some doc_two))))
        \<and> rows (data z) = [customer_A] \<and> count z = 1)
   \<and> (\<exists>z. (JStr ''C'', z)
          \<in> set (zones (fst (import_section sample_lib sample_gdf initial_state (Some doc_two))))
        \<and> rows (data z) = [customer_B] \<and> count z = 1)
   \<and> snd (import_section sample_lib sample_gdf initial_state (Some doc_legacy)) = ImportedJSON 2
   \<and> (\<exists>z. (JStr ''South'', z)
          \<in> set (zones (fst (import_section sample_lib sample_gdf initial_state (Some doc_legacy))))
        \<and> rows (data z) = [customer_B] \<and> count z = 1)
   \<and> (\<exists>z. (JStr ''North'', z)
          \<in> set (zones (fst (import_section sample_lib sample_gdf initial_state (Some doc_legacy))))
        \<and> rows (data z) = [customer_A] \<and> count z = 1)"
proof -
  note T = members_are_roster_within [where L = sample_lib and gdf = sample_gdf
      and out = "drawn (square (-1) (-1) 1 1)"
      and d = "JObj [(''type'', JStr ''Feature''), (''geometry'', square (-1) (-1) 1 1)]"
      and gj = "square (-1) (-1) 1 1" and p = "Box (-1) (-1) 1 1" and sa = initial_state
      and label = "''North''"
      and bb = doc_two and sb = initial_state
      and db = "JObj [(''type'', JStr ''FeatureCollection''),
                      (''features'', JArr [feature_A, feature_C])]"
      and fs = "JArr [feature_A, feature_C]" and feats = "[parts_A, parts_C]"
      and bc = doc_legacy and sc = initial_state and items = "[legacy_south, legacy_north]"]
  have drawn_save: "\<exists>z. (JStr ''North'', z)
          \<in> set (zones (fst (save_section sample_lib sample_gdf initial_state
                                (drawn (square (-1) (-1) 1 1)) ''North'' True)))
        \<and> rows (data z) = [customer_A] \<and> count z = 1"
    using T [THEN conjunct1]
    by (simp add: drawn_def dict_get_def initial_state_def filter_north) auto
  have collection: "snd (import_section sample_lib sample_gdf initial_state (Some doc_two))
        = ImportedGeoJSON 2
      \<and> (\<forall>r \<in> set [parts_A, parts_C]. \<exists>z.
            (JStr (feat_name r), z)
              \<in> set (zones (fst (import_section sample_lib sample_gdf initial_state (Some doc_two))))
            \<and> geometry z = feat_geom r
            \<and> rows (data z)
                = filter (\<lambda>c. within_geom sample_lib (point c) (feat_geom r)) (rows sample_gdf)
            \<and> count z = length (rows (data z)))"
    using T [THEN conjunct2, THEN conjunct1]
    by (simp add: initial_state_def loads_sample is_feature_collection_def dict_get_def
          feature_A_def feature_C_def parts_A_def parts_C_def)
  have legacy: "snd (import_section sample_lib sample_gdf initial_state (Some doc_legacy))
        = ImportedJSON 2
      \<and> (\<forall>r \<in> set [legacy_south, legacy_north]. \<exists>z.
            (JStr (item_label r), z)
              \<in> set (zones (fst (import_section sample_lib sample_gdf initial_state (Some doc_legacy))))
            \<and> geometry z = item_geom r
            \<and> rows (data z)
                = filter (\<lambda>c. within_geom sample_lib (point c) (item_geom r)) (rows sample_gdf)
            \<and> count z = length (rows (data z)))"
    using T [THEN conjunct2, THEN conjunct2, THEN conjunct1]
    by (simp add: initial_state_def loads_sample dict_get_def legacy_south_def legacy_north_def)
  from collection have a: "\<exists>z. (JStr ''A'', z)
          \<in> set (zones (fst (import_section sample_lib sample_gdf initial_state (Some doc_two))))
        \<and> rows (data z) = [customer_A] \<and> count z = 1"
    and c: "\<exists>z. (JStr ''C'', z)
          \<in> set (zones (fst (import_section sample_lib sample_gdf initial_state (Some doc_two))))
        \<and> rows (data z) = [customer_B] \<and> count z = 1"
    by (auto simp: parts_A_def parts_C_def filter_north filter_south)
  from legacy have s: "\<exists>z. (JStr ''South'', z)
          \<in> set (zones (fst (import_section sample_lib sample_gdf initial_state (Some doc_legacy))))
        \<and> rows (data z) = [customer_B] \<and> count z = 1"
    and n: "\<exists>z. (JStr ''North'', z)
          \<in> set (zones (fst (import_section sample_lib sample_gdf initial_state (Some doc_legacy))))
        \<and> rows (data z) = [customer_A] \<and> count z = 1"
    by (auto simp: legacy_south_def legacy_north_def filter_north filter_south)
  from drawn_save collection legacy a c s n show ?thesis by blast
qed

section \<open>Sessions\<close>

lemma run_set:
  assumes "(l, z) \<in> set (zones (run L gdf st inp))"
  shows "(l, z) \<in> set (zones st) \<or> roster_derived L gdf z"
  using assms unfolding run_def
  by (blast dest: save_section_set import_section_set)

lemma foldl_run_derived:
  assumes "\<forall>(l, z) \<in> set (zones st). roster_derived L gdf z"
  shows "\<forall>(l, z) \<in> set (zones (foldl (run L gdf) st inps)). roster_derived L gdf z"
  using assms
proof (induction inps arbitrary: st)
  case Nil
  then show ?case by simp
next
  case (Cons inp inps)
  have "\<forall>(l, z) \<in> set (zones (run L gdf st inp)). roster_derived L gdf z"
    using Cons.prems run_set by fastforce
  from Cons.IH [OF this] show ?case by simp
qed

lemma run_all_derived:
  "(l, z) \<in> set (zones (run_all L gdf inps)) \<Longrightarrow> roster_derived L gdf z"
  using foldl_run_derived [of initial_state L gdf inps]
  by (auto simp: run_all_def initial_state_def)

text \<open>
  C8. In the session state after any sequence of script runs from the initial state
  (each run with any upload, any drawing, any label, button pressed or not; the
  export reads the store without changing it), every stored zone's count is the
  number of its members.
\<close>

theorem count_is_number_of_members:
  "\<forall>(l, z) \<in> set (zones (run_all L gdf inps)). count z = length (rows (data z))"
  using run_all_derived [of _ _ L gdf inps]
  by (auto simp: roster_derived_def)

theorem count_is_number_of_members_witness:
  "run_all sample_lib sample_gdf
     [\<lparr>uploaded = None, map_output = drawn (square (-1) (-1) 1 1), label_input = ''North'',
       save_clicked = True\<rparr>] = state_north
   \<and> count zone_north = length (rows (data zone_north))"
  using count_is_number_of_members [of sample_lib sample_gdf
          "[\<lparr>uploaded = None, map_output = drawn (square (-1) (-1) 1 1), label_input = ''North'',
             save_clicked = True\<rparr>]"]
  by (simp add: run_all_def run_def import_section_def save_north state_north_def)

section \<open>Failures and defaults of the import\<close>

lemma import_feature_A:
  "import_feature sample_lib sample_gdf [] feature_A = Inr [(JStr ''A'', zone_north)]"
  by (simp add: import_feature_def feature_A_def dict_get_def setitem_def zone_record_def
        zone_north_def)

lemma import_feature_B:
  "import_feature sample_lib sample_gdf zs feature_B = Inl AttributeError"
  by (simp add: import_feature_def feature_B_def dict_get_def)

lemma import_item_south:
  "import_item sample_lib sample_gdf [(JStr ''North'', zone_north)]
     (''South'', JObj [(''geometry'', square 4 4 6 6)])
     = Inr [(JStr ''North'', zone_north), (JStr ''South'', zone_south)]"
  by (simp add: import_item_def dict_get_def setitem_def zone_record_def zone_south_def)

lemma import_features_append:
  assumes "import_features L gdf zs n pre = (zs', Inr m)"
  shows "import_features L gdf zs n (pre @ rest) = import_features L gdf zs' m rest"
  using assms
proof (induction pre arbitrary: zs n)
  case Nil
  then show ?case by simp
next
  case (Cons feat pre)
  then show ?case
    by (cases "import_feature L gdf zs feat") auto
qed

text \<open>
  C5 (as amended). The loop over the features runs inside the one \<open>try\<close> of the
  import: when the records before a record are imported and that record fails (a
  geometry that \<open>shape\<close> rejects, or any other exception), the import ends there with
  the single message that the import failed; the store holds the zones of the
  records before the failing one, and the records after it are not processed.
\<close>

theorem import_stops_at_first_failure:
  assumes "Some (hash L b) \<noteq> last_upload_hash st"
      and "loads L b = Inr d"
      and "is_feature_collection d"
      and "py_subscript d ''features'' = Inr fs"
      and "py_iter fs = Inr (pre @ bad # post)"
      and "import_features L gdf (zones st) 0 pre = (zs', Inr m)"
      and "import_feature L gdf zs' bad = Inl e"
  shows "import_section L gdf st (Some b)
           = (\<lparr>zones = zs', last_upload_hash = Some (hash L b)\<rparr>, ImportFailed e)"
proof -
  have "import_features L gdf (zones st) 0 (pre @ bad # post) = (zs', Inl e)"
    using import_features_append [OF assms(6), of "bad # post"] assms(7) by simp
  then have "import_data L gdf (zones st) b = (zs', ImportFailed e)"
    using assms(2-5) by (simp add: import_data_def)
  then show ?thesis
    using assms(1) by (simp add: import_section_def)
qed

theorem import_stops_at_first_failure_witness:
  "import_section sample_lib sample_gdf initial_state (Some doc_three)
     = (\<lparr>zones = [(JStr ''A'', zone_north)], last_upload_hash = Some (hash sample_lib doc_three)\<rparr>,
        ImportFailed AttributeError)"
proof -
  have "import_section sample_lib sample_gdf initial_state (Some doc_three)
     = (\<lparr>zones = [(JStr ''A'', zone_north)], last_upload_hash = Some (hash sample_lib doc_three)\<rparr>,
        ImportFailed AttributeError)"
  proof (rule import_stops_at_first_failure [where pre = "[feature_A]" and bad = feature_B
           and post = "[feature_C]"])
    show "Some (hash sample_lib doc_three) \<noteq> last_upload_hash (initial_state :: box session_state)"
      by (simp add: initial_state_def)
    show "loads sample_lib doc_three =
            Inr (JObj [(''type'', JStr ''FeatureCollection''),
                       (''features'', JArr [feature_A, feature_B, feature_C])])"
      by (rule loads_sample)
    show "is_feature_collection (JObj [(''type'', JStr ''FeatureCollection''),
                       (''features'', JArr [feature_A, feature_B, feature_C])])"
      by (simp add: is_feature_collection_def dict_get_def)
    show "py_subscript (JObj [(''type'', JStr ''FeatureCollection''),
                       (''features'', JArr [feature_A, feature_B, feature_C])]) ''features''
            = Inr (JArr [feature_A, feature_B, feature_C])"
      by simp
    show "py_iter (JArr [feature_A, feature_B, feature_C]) = Inr ([feature_A] @ feature_B # [feature_C])"
      by simp
    show "import_features sample_lib sample_gdf (zones (initial_state :: box session_state)) 0 [feature_A]
            = ([(JStr ''A'', zone_north)], Inr 1)"
      by (simp add: initial_state_def import_feature_A)
    show "import_feature sample_lib sample_gdf [(JStr ''A'', zone_north)] feature_B = Inl AttributeError"
      by (rule import_feature_B)
  qed
  then show ?thesis .
qed

text \<open>
  The claim as stated fails: of the three records of \<open>doc_three\<close>, the second has no
  geometry; the import reports a failure, and the zone of the third record is not in
  the store.
\<close>

theorem per_record_errors_counterexample:
  "zones (fst (import_section sample_lib sample_gdf initial_state (Some doc_three)))
     = [(JStr ''A'', zone_north)]
   \<and> snd (import_section sample_lib sample_gdf initial_state (Some doc_three))
     = ImportFailed AttributeError"
  by (simp add: import_section_def import_data_def loads_sample initial_state_def
        is_feature_collection_def dict_get_def import_feature_A import_feature_B)

text \<open>
  C7 (as amended). An import record that supplies no colour (a feature whose
  properties have no \<open>color\<close>, a legacy entry without \<open>color\<close>) gets the colour red,
  whatever the size of the store.
\<close>

theorem import_without_color_is_red:
  "(py_get feat ''properties'' (JObj []) = Inr (JObj props) \<longrightarrow> map_of props ''color'' = None
      \<longrightarrow> import_feature L gdf zs feat = Inr zs'
      \<longrightarrow> (\<exists>label z. zs' = upsert zs label z \<and> color z = JStr ''red''))
   \<and> (map_of kv ''color'' = None \<longrightarrow> import_item L gdf ys (k, JObj kv) = Inr ys'
      \<longrightarrow> (\<exists>z. ys' = upsert ys (JStr k) z \<and> color z = JStr ''red''))"
proof (intro conjI impI)
  assume props: "py_get feat ''properties'' (JObj []) = Inr (JObj props)"
    and no_color: "map_of props ''color'' = None"
    and ok: "import_feature L gdf zs feat = Inr zs'"
  from ok obtain gj geom where "py_get feat ''geometry'' (JObj []) = Inr gj"
      and "shape L gj = Inr geom"
      and "setitem zs (dict_get props ''name'' (JStr (''Zone '' @ str_nat (length zs + 1))))
             (zone_record geom (inside_of L gdf geom) (JStr ''red'')) = Inr zs'"
    using props no_color
    by (auto simp: import_feature_def dict_get_def split: sum.splits)
  then have "zs' = upsert zs (dict_get props ''name'' (JStr (''Zone '' @ str_nat (length zs + 1))))
                     (zone_record geom (inside_of L gdf geom) (JStr ''red''))"
    by (simp add: setitem_def split: if_splits)
  moreover have "color (zone_record geom (inside_of L gdf geom) (JStr ''red'')) = JStr ''red''"
    by (simp add: zone_record_def)
  ultimately show "\<exists>label z. zs' = upsert zs label z \<and> color z = JStr ''red''"
    by blast
next
  assume no_color: "map_of kv ''color'' = None"
    and ok: "import_item L gdf ys (k, JObj kv) = Inr ys'"
  from ok obtain geom where
      "setitem ys (JStr k) (zone_record geom (inside_of L gdf geom) (JStr ''red'')) = Inr ys'"
    using no_color
    by (auto simp: import_item_def dict_get_def split: sum.splits)
  then have "ys' = upsert ys (JStr k) (zone_record geom (inside_of L gdf geom) (JStr ''red''))"
    by (simp add: setitem_def)
  moreover have "color (zone_record geom (inside_of L gdf geom) (JStr ''red'')) = JStr ''red''"
    by (simp add: zone_record_def)
  ultimately show "\<exists>z. ys' = upsert ys (JStr k) z \<and> color z = JStr ''red''"
    by blast
qed

theorem import_without_color_is_red_witness:
  "import_feature sample_lib sample_gdf [] feature_A = Inr [(JStr ''A'', zone_north)]
   \<and> import_item sample_lib sample_gdf [(JStr ''North'', zone_north)]
        (''South'', JObj [(''geometry'', square 4 4 6 6)])
       = Inr [(JStr ''North'', zone_north), (JStr ''South'', zone_south)]
   \<and> (\<exists>label z. [(JStr ''A'', zone_north)] = upsert [] label z \<and> color z = JStr ''red'')
   \<and> (\<exists>z. [(JStr ''North'', zone_north), (JStr ''South'', zone_south)]
             = upsert [(JStr ''North'', zone_north)] (JStr ''South'') z \<and> color z = JStr ''red'')"
  using import_without_color_is_red [of feature_A "[(''name'', JStr ''A'')]" sample_lib sample_gdf
          "[]" "[(JStr ''A'', zone_north)]" "[(''geometry'', square 4 4 6 6)]"
          "[(JStr ''North'', zone_north)]" "''South''"
          "[(JStr ''North'', zone_north), (JStr ''South'', zone_south)]"]
  apply (simp only: import_feature_A import_item_south)
  apply (simp add: feature_A_def dict_get_def)
  done

text \<open>
  The claim as stated fails: with one zone in the store, a legacy record without a
  colour becomes a red zone, while the palette colour for a store of size one is blue.
\<close>

theorem import_palette_color_counterexample:
  "zones (fst (import_section sample_lib sample_gdf state_north (Some doc_south)))
     = [(JStr ''North'', zone_north), (JStr ''South'', zone_south)]
   \<and> color zone_south = JStr ''red''
   \<and> palette ! (length (zones state_north) mod length palette) = ''blue''"
  by (simp add: import_section_def import_data_def loads_sample state_north_def
        is_feature_collection_def dict_get_def import_item_south zone_south_def palette_def)

section \<open>Summary and downloads\<close>

lemma summary_Inr:
  assumes "summary L zs = Inr es"
  shows "map csv es = map (\<lambda>(l, z). to_csv L (data z)) zs
         \<and> map file_name es = map (\<lambda>(l, z). label_str L l @ ''_Customers_'' @ VERSION @ ''.csv'') zs
         \<and> map shown_table es
             = map (\<lambda>(l, z). (shown_columns,
                     map (\<lambda>r. map (cell_at (columns (data z)) r) shown_columns) (rows (data z)))) zs"
  using assms
proof (induction zs arbitrary: es)
  case Nil
  then show ?case by simp
next
  case (Cons lz zs)
  from Cons.prems obtain x xs where x: "summary_entry_of L lz = Inr x"
      and xs: "summary L zs = Inr xs" and es: "es = x # xs"
    by (auto split: sum.splits)
  from x have "csv x = to_csv L (data (snd lz))"
      and "file_name x = label_str L (fst lz) @ ''_Customers_'' @ VERSION @ ''.csv''"
      and "shown_table x = (shown_columns,
             map (\<lambda>r. map (cell_at (columns (data (snd lz))) r) shown_columns) (rows (data (snd lz))))"
    by (auto simp: summary_entry_of_def select_columns_def split: sum.splits if_splits)
  with Cons.IH [OF xs] es show ?case
    by (cases lz) simp
qed

lemma run_all_north: "run_all sample_lib sample_gdf [input_north] = state_north"
  by (simp add: run_all_def run_def import_section_def input_north_def save_north)

lemma summary_north: "summary sample_lib (zones state_north) = Inr [entry_north]"
  by (simp add: state_north_def zone_north_def summary_entry_of_def select_columns_def
        shown_columns_def sample_gdf_def roster_columns_def customer_A_def cell_at_def
        sample_lib_def sample_to_csv_def join_commas_def wkt_def str_int_def str_nat.simps
        digit_char_def VERSION_def entry_north_def)

text \<open>
  C9 (as amended). In every session, when the summary is shown, the download of each
  stored zone is \<open>to_csv\<close> of the zone's whole member frame: the roster's own columns
  (all of them, with the geometry column) and as rows the roster rows within the
  zone's geometry; only the table shown on screen is restricted to the four columns.
  The file name is the label followed by \<open>_Customers_\<close>, the version and \<open>.csv\<close>.
\<close>

theorem download_is_whole_member_frame:
  assumes "summary L (zones (run_all L gdf inps)) = Inr es"
  shows "map csv es
           = map (\<lambda>(l, z). to_csv L (gdf\<lparr>rows := filter (\<lambda>c. within_geom L (point c) (geometry z))
                                                    (rows gdf)\<rparr>))
               (zones (run_all L gdf inps))
         \<and> map file_name es
           = map (\<lambda>(l, z). label_str L l @ ''_Customers_v1.4.csv'') (zones (run_all L gdf inps))
         \<and> map (fst \<circ> shown_table) es = map (\<lambda>lz. shown_columns) (zones (run_all L gdf inps))"
proof -
  have d: "(l, z) \<in> set (zones (run_all L gdf inps)) \<Longrightarrow>
           data z = gdf\<lparr>rows := filter (\<lambda>c. within_geom L (point c) (geometry z)) (rows gdf)\<rparr>" for l z
    using run_all_derived [of l z L gdf inps] by (simp add: roster_derived_def inside_of_def)
  have "map (\<lambda>(l, z). to_csv L (data z)) (zones (run_all L gdf inps))
          = map (\<lambda>(l, z). to_csv L (gdf\<lparr>rows := filter (\<lambda>c. within_geom L (point c) (geometry z))
                                                    (rows gdf)\<rparr>))
               (zones (run_all L gdf inps))"
    using d by (auto intro!: map_cong)
  moreover have "map (fst \<circ> shown_table) es = map (\<lambda>lz. shown_columns) (zones (run_all L gdf inps))"
    using summary_Inr [OF assms, THEN conjunct2, THEN conjunct2, THEN arg_cong [of _ _ "map fst"]]
    by (simp add: comp_def case_prod_unfold)
  ultimately show ?thesis
    using summary_Inr [OF assms] by (simp add: VERSION_def)
qed

theorem download_is_whole_member_frame_witness:
  "summary sample_lib (zones (run_all sample_lib sample_gdf [input_north])) = Inr [entry_north]
   \<and> csv entry_north = to_csv sample_lib (sample_gdf\<lparr>rows := [customer_A]\<rparr>)
   \<and> file_name entry_north = ''North_Customers_v1.4.csv''
   \<and> fst (shown_table entry_north) = shown_columns"
  using download_is_whole_member_frame [of sample_lib sample_gdf "[input_north]" "[entry_north]"]
  by (simp add: run_all_north summary_north)
     (simp add: state_north_def zone_north_def sample_lib_def sample_gdf_def customer_A_def
        customer_B_def)

text \<open>
  The claim as stated fails: the file downloaded for the zone North has the seven
  columns of the member frame, not the four columns of the table shown on screen.
\<close>

theorem download_columns_counterexample:
  "summary sample_lib (zones state_north) = Inr [entry_north]
   \<and> csv entry_north
       = ''Customer ID,Street Address,Lifetime Net Sales,Lifetime Avg Order Value,Latitude,Longitude,geometry''
         @ [CHR 0x0A] @ ''A,1 Main St,100.0,10.0,0.0,0.0,POINT (0 0)'' @ [CHR 0x0A]
   \<and> fst (shown_table entry_north)
       = [''Customer ID'', ''Street Address'', ''Lifetime Net Sales'', ''Lifetime Avg Order Value'']
   \<and> columns (data zone_north) \<noteq> fst (shown_table entry_north)"
  by (simp add: summary_north)
     (simp add: entry_north_def shown_columns_def zone_north_def sample_gdf_def roster_columns_def)

section \<open>Export and re-import\<close>

lemma keys_upsert:
  "(k', v') \<in> set (upsert zs k v) \<Longrightarrow> k' = k \<or> k' \<in> fst ` set zs"
  by (induction zs) (force split: if_splits)+

lemma distinct_keys_upsert:
  assumes "distinct_keys zs"
  shows "distinct_keys (upsert zs k v)"
  using assms
proof (induction zs)
  case Nil
  then show ?case by simp
next
  case (Cons kv zs)
  obtain k' v' where kv: "kv = (k', v')" by (cases kv)
  show ?case
  proof (cases "key_eq k' k")
    case True
    with Cons.prems kv show ?thesis by simp
  next
    case False
    have "\<not> key_eq k' k''" if "(k'', v'') \<in> set (upsert zs k v)" for k'' v''
    proof -
      from keys_upsert [OF that] have "k'' = k \<or> k'' \<in> fst ` set zs" .
      with False Cons.prems kv show ?thesis
        by (auto simp: list_all_iff)
    qed
    with False Cons kv show ?thesis
      by (auto simp: list_all_iff)
  qed
qed

lemma upsert_new:
  assumes "\<forall>(k', v') \<in> set zs. \<not> key_eq k' k"
  shows "upsert zs k v = zs @ [(k, v)]"
  using assms by (induction zs) auto

lemma import_features_pres:
  assumes step: "\<And>zs k v. Q zs \<Longrightarrow> Q (upsert zs k v)"
      and "Q zs" and "import_features L gdf zs n feats = (zs', r)"
  shows "Q zs'"
  using assms(2,3)
proof (induction feats arbitrary: zs n)
  case Nil
  then show ?case by simp
next
  case (Cons feat feats)
  show ?case
  proof (cases "import_feature L gdf zs feat")
    case (Inl e)
    with Cons.prems show ?thesis by simp
  next
    case (Inr zs1)
    with import_feature_Inr [OF Inr] step [OF Cons.prems(1)] have "Q zs1" by auto
    moreover from Inr Cons.prems have "import_features L gdf zs1 (n + 1) feats = (zs', r)" by simp
    ultimately show ?thesis by (rule Cons.IH)
  qed
qed

lemma import_items_pres:
  assumes step: "\<And>zs k v. Q zs \<Longrightarrow> Q (upsert zs k v)"
      and "Q zs" and "import_items L gdf zs items = (zs', r)"
  shows "Q zs'"
  using assms(2,3)
proof (induction items arbitrary: zs)
  case Nil
  then show ?case by simp
next
  case (Cons item items)
  show ?case
  proof (cases "import_item L gdf zs item")
    case (Inl e)
    with Cons.prems show ?thesis by simp
  next
    case (Inr zs1)
    with import_item_Inr [OF Inr] step [OF Cons.prems(1)] have "Q zs1" by auto
    moreover from Inr Cons.prems have "import_items L gdf zs1 items = (zs', r)" by simp
    ultimately show ?thesis by (rule Cons.IH)
  qed
qed

lemma import_data_cases:
  assumes "import_data L gdf zs b = (zs', fb)"
  shows "zs' = zs \<or> (\<exists>feats r. import_features L gdf zs 0 feats = (zs', r))
         \<or> (\<exists>items r. import_items L gdf zs items = (zs', r))"
proof (cases "loads L b")
  case (Inl e)
  with assms show ?thesis by (simp add: import_data_def)
next
  case (Inr d)
  show ?thesis
  proof (cases "is_feature_collection d")
    case True
    show ?thesis
    proof (cases "py_subscript d ''features''")
      case (Inl e)
      with assms Inr True show ?thesis by (simp add: import_data_def)
    next
      case fs: (Inr fs)
      show ?thesis
      proof (cases "py_iter fs")
        case (Inl e)
        with assms Inr True fs show ?thesis by (simp add: import_data_def)
      next
        case feats: (Inr feats)
        obtain zs1 r where r: "import_features L gdf zs 0 feats = (zs1, r)"
          by (cases "import_features L gdf zs 0 feats")
        with assms Inr True fs feats have "zs' = zs1"
          by (cases r) (simp_all add: import_data_def)
        with r show ?thesis by blast
      qed
    qed
  next
    case False
    show ?thesis
    proof (cases "\<exists>kv. d = JObj kv")
      case True
      then obtain kv where kv: "d = JObj kv" by blast
      obtain zs1 r where r: "import_items L gdf zs kv = (zs1, r)"
        by (cases "import_items L gdf zs kv")
      with assms Inr False kv have "zs' = zs1"
        by (cases r) (simp_all add: import_data_def)
      with r show ?thesis by blast
    next
      case notobj: False
      with assms Inr False show ?thesis
        by (cases d) (simp_all add: import_data_def)
    qed
  qed
qed

lemma import_data_pres:
  assumes step: "\<And>zs k v. Q zs \<Longrightarrow> Q (upsert zs k v)"
      and "Q zs" and "import_data L gdf zs b = (zs', fb)"
  shows "Q zs'"
  using import_data_cases [OF assms(3)] assms(2)
    import_features_pres [of Q zs L gdf 0 _ zs', OF step]
    import_items_pres [of Q zs L gdf _ zs', OF step]
  by blast

lemma import_section_pres:
  assumes step: "\<And>zs k v. Q zs \<Longrightarrow> Q (upsert zs k v)"
      and "Q (zones st)"
  shows "Q (zones (fst (import_section L gdf st up)))"
proof (cases up)
  case None
  with assms(2) show ?thesis by (simp add: import_section_def)
next
  case (Some b)
  obtain zs' fb where r: "import_data L gdf (zones st) b = (zs', fb)"
    by (cases "import_data L gdf (zones st) b")
  from import_data_pres [of Q, OF step assms(2) r] have "Q zs'" .
  with Some r assms(2) show ?thesis
    by (simp add: import_section_def Let_def)
qed

lemma save_section_zones:
  "zones (fst (save_section L gdf st out label clicked)) = zones st
   \<or> (\<exists>v. zones (fst (save_section L gdf st out label clicked)) = upsert (zones st) (JStr label) v)"
  by (auto simp: save_section_def Let_def split: sum.splits)

lemma run_pres:
  assumes step: "\<And>zs k v. Q zs \<Longrightarrow> Q (upsert zs k v)"
      and "Q (zones st)"
  shows "Q (zones (run L gdf st inp))"
proof -
  have "Q (zones (fst (import_section L gdf st (uploaded inp))))"
    using assms by (rule import_section_pres)
  with save_section_zones [of L gdf "fst (import_section L gdf st (uploaded inp))"
         "map_output inp" "label_input inp" "save_clicked inp"] step
  show ?thesis
    unfolding run_def by auto
qed

lemma run_all_distinct_keys: "distinct_keys (zones (run_all L gdf inps))"
proof -
  have "distinct_keys (zones st) \<Longrightarrow> distinct_keys (zones (foldl (run L gdf) st inps))" for st
  proof (induction inps arbitrary: st)
    case Nil
    then show ?case by simp
  next
    case (Cons inp inps)
    have "distinct_keys (zones (run L gdf st inp))"
      using Cons.prems by (rule run_pres [rotated]) (rule distinct_keys_upsert)
    from Cons.IH [OF this] show ?case by simp
  qed
  from this [of initial_state] show ?thesis
    by (simp add: run_all_def initial_state_def)
qed

lemma is_str_label [simp]: "is_str l \<Longrightarrow> JStr (label_str L l) = l"
  by (cases l) (auto simp: is_str_def)

lemma distinct_keys_str:
  assumes "distinct_keys zs" and "\<forall>(l, z) \<in> set zs. is_str l"
  shows "distinct (map fst zs)"
  using assms
proof (induction zs)
  case Nil
  then show ?case by simp
next
  case (Cons kv zs)
  obtain k v where kv: "kv = (k, v)" by (cases kv)
  from Cons.prems kv have "list_all (\<lambda>(k', v'). \<not> key_eq k k') zs" by simp
  moreover from Cons.prems have "\<forall>(l, z) \<in> set zs. is_str l" by simp
  ultimately have "k \<notin> fst ` set zs"
    by (auto simp: list_all_iff)
  with Cons kv show ?case by simp
qed

lemma import_item_exported:
  assumes "is_str l"
      and "shape L (mapping L (geometry z)) = Inr g"
      and "\<forall>(k', v') \<in> set acc. k' \<noteq> l"
  shows "import_item L gdf acc
           (label_str L l, JObj [(''geometry'', mapping L (geometry z)), (''color'', color z)])
         = Inr (acc @ [reimported L gdf (l, z)])"
proof -
  from assms(1) obtain s where l: "l = JStr s"
    by (cases l) (auto simp: is_str_def)
  have "upsert acc (JStr s) v = acc @ [(JStr s, v)]" for v
    using assms(3) l by (intro upsert_new) auto
  with assms(2) l show ?thesis
    by (simp add: import_item_def dict_get_def setitem_def reimported_def)
qed

lemma import_items_exported:
  assumes "\<forall>(l, z) \<in> set zs. is_str l"
      and "distinct (map fst zs)"
      and "\<forall>(l, z) \<in> set zs. \<exists>g. shape L (mapping L (geometry z)) = Inr g"
      and "fst ` set acc \<inter> fst ` set zs = {}"
  shows "import_items L gdf acc (map (\<lambda>(l, v). (label_str L l, v)) (export_data L zs))
         = (acc @ map (reimported L gdf) zs, None)"
  using assms
proof (induction zs arbitrary: acc)
  case Nil
  then show ?case by (simp add: export_data_def)
next
  case (Cons lz zs)
  obtain l z where lz: "lz = (l, z)" by (cases lz)
  from Cons.prems(3) lz obtain g where g: "shape L (mapping L (geometry z)) = Inr g"
    by auto
  from Cons.prems(1) lz have str: "is_str l" by simp
  from Cons.prems(4) lz have new: "\<forall>(k', v') \<in> set acc. k' \<noteq> l"
    by force
  have item: "import_item L gdf acc
           (label_str L l, JObj [(''geometry'', mapping L (geometry z)), (''color'', color z)])
         = Inr (acc @ [reimported L gdf (l, z)])"
    using str g new by (rule import_item_exported)
  have disj: "fst ` set (acc @ [reimported L gdf (l, z)]) \<inter> fst ` set zs = {}"
    using Cons.prems(2,4) lz by (auto simp: reimported_def)
  have "import_items L gdf (acc @ [reimported L gdf (l, z)])
          (map (\<lambda>(l, v). (label_str L l, v)) (export_data L zs))
        = ((acc @ [reimported L gdf (l, z)]) @ map (reimported L gdf) zs, None)"
    using Cons.prems(1,2,3) disj by (intro Cons.IH) auto
  with item lz show ?case
    by (simp add: export_data_def)
qed

lemma exported_not_feature_collection:
  "\<not> is_feature_collection (JObj (map (\<lambda>(l, v). (label_str L l, v)) (export_data L zs)))"
proof -
  have "v \<noteq> JStr ''FeatureCollection''"
    if "map_of (map (\<lambda>(l, v). (label_str L l, v)) (export_data L zs)) ''type'' = Some v" for v
    using map_of_SomeD [OF that] by (auto simp: export_data_def)
  then show ?thesis
    by (auto simp: is_feature_collection_def dict_get_def split: option.splits)
qed

lemma reimported_same:
  assumes "shape L (mapping L (geometry z)) = Inr (geometry z)"
      and "roster_derived L gdf z"
  shows "reimported L gdf (l, z) = (l, z)"
  using assms by (simp add: reimported_def zone_record_def roster_derived_def)


lemma shape_exported [simp]:
  "shape sample_lib (sample_mapping (Box (-1) (-1) 1 1)) = Inr (Box (-1) (-1) 1 1)"
  by (simp add: sample_lib_def sample_shape_def dict_get_def)

lemma export_data_north:
  "export_data sample_lib [(JStr ''North'', zone_north)] = [(JStr ''North'', exported_zone)]"
  by (simp add: export_data_def zone_north_def exported_zone_def sample_lib_def)

lemma export_north:
  "export_section sample_lib [(JStr ''North'', zone_north)]
     = Some (doc_export_north, ''zones_export_v1.4.json'')"
  by (simp add: export_section_def export_data_def zone_north_def exported_zone_def
        sample_lib_def sample_dumped_def VERSION_def)

lemma export_seven:
  "export_section sample_lib [(JInt 7, zone_north)]
     = Some (doc_export_seven, ''zones_export_v1.4.json'')"
  by (simp add: export_section_def export_data_def zone_north_def exported_zone_def
        sample_lib_def sample_dumped_def VERSION_def)

lemma import_seven:
  "zones (fst (import_section sample_lib sample_gdf initial_state (Some doc_seven)))
     = [(JInt 7, zone_north)]"
  by (simp add: import_section_def import_data_def loads_sample initial_state_def
        is_feature_collection_def dict_get_def import_feature_def feature_7_def setitem_def
        zone_record_def zone_north_def)

lemma import_export_seven:
  "zones (fst (import_section sample_lib sample_gdf initial_state (Some doc_export_seven)))
     = [(JStr ''7'', zone_north)]"
  by (simp add: import_section_def import_data_def loads_sample initial_state_def
        is_feature_collection_def dict_get_def import_item_def exported_zone_def setitem_def
        zone_record_def zone_north_def del: sample_mapping.simps)


text \<open>
  The hypothesis on the labels is needed. A feature collection may name a zone with
  a value that is not a string: \<open>doc_seven\<close> names its zone with the number 7, the
  export writes the key as the text "7", and the re-import stores the zone under the
  string.
\<close>

lemma numeric_name_comes_back_as_string:
  "zones (fst (import_section sample_lib sample_gdf initial_state (Some doc_seven)))
     = [(JInt 7, zone_north)]
   \<and> export_section sample_lib [(JInt 7, zone_north)]
       = Some (doc_export_seven, ''zones_export_v1.4.json'')
   \<and> zones (fst (import_section sample_lib sample_gdf initial_state (Some doc_export_seven)))
       = [(JStr ''7'', zone_north)]"
  by (simp add: import_seven export_seven import_export_seven)

end
